theory Spec2Isabelle
  imports Complex_Main
begin

section \<open>C integer arithmetic\<close>

text \<open>
  The benchmark keeps its parameters in C \<^verbatim>\<open>int\<close> variables. They are modelled as
  mathematical integers inside the 32-bit range; an operation whose C behaviour is undefined
  (division by zero, a quotient or product outside the range) yields \<open>None\<close>.
  C division truncates towards zero.
\<close>

definition INT_MAX :: int where
  "INT_MAX = 2147483647"

definition INT_MIN :: int where
  "INT_MIN = - 2147483648"

definition is_c_int :: "int \<Rightarrow> bool" where
  "is_c_int x \<longleftrightarrow> INT_MIN \<le> x \<and> x \<le> INT_MAX"

definition c_quot :: "int \<Rightarrow> int \<Rightarrow> int" where
  "c_quot a b = (if (a < 0) = (b < 0) then \<bar>a\<bar> div \<bar>b\<bar> else - (\<bar>a\<bar> div \<bar>b\<bar>))"

definition c_div :: "int \<Rightarrow> int \<Rightarrow> int option" where
  "c_div a b = (if b = 0 \<or> \<not> is_c_int (c_quot a b) then None else Some (c_quot a b))"

definition c_mul :: "int \<Rightarrow> int \<Rightarrow> int option" where
  "c_mul a b = (if is_c_int (a * b) then Some (a * b) else None)"

section \<open>Parameters and their normalization\<close>

definition WINDOW_SIZE :: int where
  "WINDOW_SIZE = 64"

definition DEF_NUM_THREADS :: int where
  "DEF_NUM_THREADS = 1"

definition DEF_MESSAGE_SIZE :: int where
  "DEF_MESSAGE_SIZE = 8"

definition DEF_NUM_MESSAGES :: int where
  "DEF_NUM_MESSAGES = 640000"

definition LARGE_MSG_TH :: int where
  "LARGE_MSG_TH = 16384"

definition DEF_LARGE_NUM_MESSAGES :: int where
  "DEF_LARGE_NUM_MESSAGES = 64000"

text \<open>The three global variables of the program.\<close>

record bench_globals =
  num_threads :: int
  num_messages :: int
  message_size :: int

text \<open>
  The first statement of \<^verbatim>\<open>run_bench\<close>:
  \<^verbatim>\<open>num_messages = WINDOW_SIZE * (num_messages / num_threads / WINDOW_SIZE);\<close>
  The macro is a parameter of \<open>normalize_count\<close>; the program instantiates it with
  \<open>WINDOW_SIZE\<close>.
\<close>

definition normalize_count :: "int \<Rightarrow> int \<Rightarrow> int \<Rightarrow> int option" where
  "normalize_count w nm nt =
     Option.bind (c_div nm nt) (\<lambda>q.
     Option.bind (c_div q w) (\<lambda>k.
     c_mul w k))"

definition normalize_messages :: "bench_globals \<Rightarrow> bench_globals option" where
  "normalize_messages g =
     map_option (\<lambda>n. g\<lparr>num_messages := n\<rparr>)
       (normalize_count WINDOW_SIZE (num_messages g) (num_threads g))"

text \<open>
  The head of the parallel region, executed by every thread:
  \<^verbatim>\<open>target_disp = tid * message_size;\<close>
  \<^verbatim>\<open>win_posts = num_messages / WINDOW_SIZE;\<close>
  \<^verbatim>\<open>if (win_posts * WINDOW_SIZE != num_messages) printf("Warning: ...");\<close>
\<close>

definition win_posts_of :: "int \<Rightarrow> int option" where
  "win_posts_of nm = c_div nm WINDOW_SIZE"

definition accuracy_warning :: "int \<Rightarrow> bool option" where
  "accuracy_warning nm =
     Option.bind (win_posts_of nm) (\<lambda>wp.
     Option.bind (c_mul wp WINDOW_SIZE) (\<lambda>p.
     Some (p \<noteq> nm)))"

definition warning_text :: string where
  "warning_text = ''Warning: The final reported numbers will be off. Please choose number of messages to be a multiple of window size'' @ [CHR 0x0A]"

record thread_locals =
  tid :: int
  my_message_size :: int
  target_disp :: int
  win_posts :: int
  warning :: bool

definition target_disp_of :: "int \<Rightarrow> int \<Rightarrow> int option" where
  "target_disp_of t ms = c_mul t ms"

definition thread_prologue :: "bench_globals \<Rightarrow> int \<Rightarrow> thread_locals option" where
  "thread_prologue g t =
     Option.bind (target_disp_of t (message_size g)) (\<lambda>d.
     Option.bind (win_posts_of (num_messages g)) (\<lambda>wp.
     Option.bind (accuracy_warning (num_messages g)) (\<lambda>wn.
     Some \<lparr>tid = t, my_message_size = message_size g, target_disp = d,
            win_posts = wp, warning = wn\<rparr>)))"

text \<open>The bytes of the target window that a put of \<open>sz\<close> bytes at displacement \<open>d\<close> overwrites.\<close>

definition put_bytes :: "int \<Rightarrow> int \<Rightarrow> int set" where
  "put_bytes d sz = {d ..< d + sz}"

text \<open>Slot \<open>i\<close> of the target window, for messages of \<open>ms\<close> bytes.\<close>

definition slot :: "int \<Rightarrow> int \<Rightarrow> int set" where
  "slot ms i = {i * ms ..< (i + 1) * ms}"

section \<open>The put loops\<close>

text \<open>
  The one-sided calls a thread issues. \<open>MPI_Put r d n\<close> writes \<open>n\<close> bytes at displacement
  \<open>d\<close> of the window of rank \<open>r\<close>; \<open>MPI_Win_flush r\<close> completes the puts to rank \<open>r\<close>.
\<close>

datatype rma_op = MPI_Put int int int | MPI_Win_flush int

text \<open>
  \<^verbatim>\<open>for (win_i = 0; win_i < WINDOW_SIZE; win_i++) MPI_Put(...);\<close>
\<close>

function put_loop :: "int \<Rightarrow> int \<Rightarrow> int \<Rightarrow> int \<Rightarrow> rma_op list" where
  "put_loop win_i rank disp sz =
     (if win_i < WINDOW_SIZE
      then MPI_Put (rank + 1) disp sz # put_loop (win_i + 1) rank disp sz
      else [])"
  by pat_completeness auto
termination
  by (relation "measure (\<lambda>(win_i, rank, disp, sz). nat (WINDOW_SIZE - win_i))") auto

text \<open>
  \<^verbatim>\<open>for (win_post_i = 0; win_post_i < win_posts; win_post_i++) { puts; MPI_Win_flush(...); }\<close>
\<close>

function post_loop :: "int \<Rightarrow> int \<Rightarrow> int \<Rightarrow> int \<Rightarrow> int \<Rightarrow> rma_op list" where
  "post_loop win_post_i wp rank disp sz =
     (if win_post_i < wp
      then put_loop 0 rank disp sz @ MPI_Win_flush (rank + 1)
             # post_loop (win_post_i + 1) wp rank disp sz
      else [])"
  by pat_completeness auto
termination
  by (relation "measure (\<lambda>(win_post_i, wp, rank, disp, sz). nat (wp - win_post_i))") auto

declare put_loop.simps [simp del]
declare post_loop.simps [simp del]

section \<open>Double-precision arithmetic\<close>

text \<open>
  The program computes its rates in C \<^verbatim>\<open>double\<close>. The operations it uses are parameters
  of the model, so that what is proved for every \<open>arith\<close> holds for the machine's
  arithmetic, whatever its rounding; \<open>real_arith\<close> is exact arithmetic on the reals.
\<close>

record 'd arith =
  of_int_d :: "int \<Rightarrow> 'd"
  add_d :: "'d \<Rightarrow> 'd \<Rightarrow> 'd"
  sub_d :: "'d \<Rightarrow> 'd \<Rightarrow> 'd"
  mul_d :: "'d \<Rightarrow> 'd \<Rightarrow> 'd"
  div_d :: "'d \<Rightarrow> 'd \<Rightarrow> 'd"

definition real_arith :: "real arith" where
  "real_arith = \<lparr>of_int_d = real_of_int, add_d = (+), sub_d = (-), mul_d = (*), div_d = (/)\<rparr>"

text \<open>
  The arithmetic of the machine is IEEE 754 binary64: every operation returns the exact
  result rounded to the nearest number with a significand of 53 bits, a tie going to the
  even significand. \<open>round_binary64\<close> is that rounding without the bounds on the exponent
  (no overflow, no subnormal numbers), and \<open>binary64_arith\<close> rounds every operation with it.
\<close>

definition round_even :: "real \<Rightarrow> int" where
  "round_even y =
     (let f = \<lfloor>y\<rfloor> in
      if y - of_int f < 1 / 2 then f
      else if 1 / 2 < y - of_int f then f + 1
      else if even f then f else f + 1)"

definition round_binary64 :: "real \<Rightarrow> real" where
  "round_binary64 x =
     (if x = 0 then 0
      else let u = 2 powr (of_int \<lfloor>log 2 \<bar>x\<bar>\<rfloor> - 52)
           in sgn x * (u * of_int (round_even (\<bar>x\<bar> / u))))"

definition binary64_arith :: "real arith" where
  "binary64_arith =
     \<lparr>of_int_d = (\<lambda>n. round_binary64 (real_of_int n)),
      add_d = (\<lambda>a b. round_binary64 (a + b)),
      sub_d = (\<lambda>a b. round_binary64 (a - b)),
      mul_d = (\<lambda>a b. round_binary64 (a * b)),
      div_d = (\<lambda>a b. round_binary64 (a / b))\<rparr>"

section \<open>The report\<close>

datatype 'd line =
    Thread_header
  | Thread_row int 'd 'd
  | Summary_header
  | Summary_row int int 'd 'd

text \<open>
  The locals of \<^verbatim>\<open>run_bench\<close> that the report uses: the array \<^verbatim>\<open>t_elapsed\<close>, which
  it reads, and the four \<^verbatim>\<open>double\<close> variables it assigns.
\<close>

record 'd report_vars =
  t_elapsed :: "'d list"
  msg_rate :: 'd
  my_msg_rate :: 'd
  bandwidth :: 'd
  my_bandwidth :: 'd

text \<open>
  \<^verbatim>\<open>my_msg_rate = ((double) num_messages / t_elapsed[thread_i]) / 1e6;\<close>
  \<^verbatim>\<open>my_bandwidth = (((double) message_size * (double) num_messages) / (1024 * 1024)) / t_elapsed[thread_i];\<close>
  The constant \<^verbatim>\<open>1e6\<close> is the double of the integer 1000000.
\<close>

definition thread_rate :: "'d arith \<Rightarrow> bench_globals \<Rightarrow> 'd \<Rightarrow> 'd" where
  "thread_rate A g t =
     div_d A (div_d A (of_int_d A (num_messages g)) t) (of_int_d A 1000000)"

definition thread_bandwidth :: "'d arith \<Rightarrow> bench_globals \<Rightarrow> 'd \<Rightarrow> 'd" where
  "thread_bandwidth A g t =
     div_d A
       (div_d A (mul_d A (of_int_d A (message_size g)) (of_int_d A (num_messages g)))
                (of_int_d A (1024 * 1024)))
       t"

text \<open>
  The loop over \<^verbatim>\<open>thread_i\<close>. It runs on the locals and on the lines printed so far.
\<close>

function report_loop ::
  "'d arith \<Rightarrow> bench_globals \<Rightarrow> int \<Rightarrow> 'd report_vars \<times> 'd line list
     \<Rightarrow> 'd report_vars \<times> 'd line list" where
  "report_loop A g thread_i (v, out) =
     (if thread_i < num_threads g then
        let r = thread_rate A g (t_elapsed v ! nat thread_i);
            b = thread_bandwidth A g (t_elapsed v ! nat thread_i)
        in report_loop A g (thread_i + 1)
             (v\<lparr>my_msg_rate := r, my_bandwidth := b,
                msg_rate := add_d A (msg_rate v) r,
                bandwidth := add_d A (bandwidth v) b\<rparr>,
              out @ [Thread_row thread_i r b])
      else (v, out))"
  by pat_completeness auto
termination
  by (relation "measure (\<lambda>(A, g, thread_i, s). nat (num_threads g - thread_i))") auto

declare report_loop.simps [simp del]

text \<open>
  The block guarded by \<^verbatim>\<open>rank % 2 == 0\<close> after the second barrier: it resets the two
  sums, prints one row per thread and then the summary row. It returns the locals as it
  leaves them and the lines it printed.
\<close>

definition report_block ::
  "'d arith \<Rightarrow> bench_globals \<Rightarrow> 'd report_vars \<Rightarrow> 'd report_vars \<times> 'd line list" where
  "report_block A g v =
     (let (v', out) = report_loop A g 0
                        (v\<lparr>msg_rate := of_int_d A 0, bandwidth := of_int_d A 0\<rparr>,
                         [Thread_header])
      in (v', out @ [Summary_header,
                     Summary_row (message_size g) (num_threads g) (msg_rate v') (bandwidth v')]))"

section \<open>The run as a trace of calls\<close>

text \<open>
  What a process does is recorded as the list of its calls, in program order. The body of
  the OpenMP parallel region is one list per thread, thread 0 (the master) first.
\<close>

datatype 'd action =
    Printf string
  | Print_usage
  | Fprintf_stderr string
  | Calloc int int
  | Posix_memalign int
  | Free_host_buf
  | Free_contig_buf
  | MPI_Init_thread
  | MPI_Comm_size
  | MPI_Comm_rank
  | Omp_set_num_threads int
  | MPI_Abort int
  | MPI_Finalize
  | MPI_Win_create int
  | MPI_Win_lock_all
  | MPI_Win_unlock_all
  | MPI_Win_free
  | MPI_Barrier
  | Omp_barrier
  | MPI_Wtime
  | Rma_loop "rma_op list"
  | Store_t_elapsed int 'd
  | Report "'d line list"

datatype 'd step = Do "'d action" | Omp_parallel "'d action list list"

datatype thread_level =
    MPI_THREAD_SINGLE | MPI_THREAD_FUNNELED | MPI_THREAD_SERIALIZED | MPI_THREAD_MULTIPLE

text \<open>
  What the program reads from outside: the thread level and the number of processes the MPI
  library reports, the rank of this process, the two clock readings of every thread, and
  the indeterminate initial contents of the uninitialised locals of the report.
\<close>

record 'd env =
  provided :: thread_level
  comm_size :: int
  comm_rank :: int
  t_start :: "int \<Rightarrow> 'd"
  t_end :: "int \<Rightarrow> 'd"
  junk :: "'d report_vars"

text \<open>Conversion of an \<^verbatim>\<open>int\<close> to \<^verbatim>\<open>size_t\<close> (64 bits).\<close>

definition to_size_t :: "int \<Rightarrow> int" where
  "to_size_t x = x mod 2 ^ 64"

text \<open>\<^verbatim>\<open>contig_buffer_size = message_size * sizeof(char) * num_threads;\<close>\<close>

definition contig_buffer_size :: "bench_globals \<Rightarrow> int" where
  "contig_buffer_size g = to_size_t (to_size_t (message_size g) * 1 * to_size_t (num_threads g))"

text \<open>
  The body of the parallel region for thread \<open>t\<close>: the head of the region, which sets
  the thread's locals, then the putter's or the target's branch. \<^verbatim>\<open>#pragma omp master\<close>
  makes thread 0 alone execute the block that follows it.
\<close>

definition body_of_locals ::
  "'d arith \<Rightarrow> 'd env \<Rightarrow> int \<Rightarrow> thread_locals \<Rightarrow> 'd action list" where
  "body_of_locals A e rank l =
     (if warning l then [Printf warning_text] else []) @
     (if rank mod 2 = 0 then
        [Posix_memalign (to_size_t (my_message_size l)),
         Rma_loop (post_loop 0 (win_posts l) rank (target_disp l) (my_message_size l))] @
        (if tid l = 0 then [MPI_Barrier] else []) @
        [Omp_barrier,
         MPI_Wtime,
         Rma_loop (post_loop 0 (win_posts l) rank (target_disp l) (my_message_size l)),
         MPI_Wtime,
         Store_t_elapsed (tid l) (sub_d A (t_end e (tid l)) (t_start e (tid l))),
         Free_host_buf]
      else
        (if tid l = 0 then [MPI_Barrier] else []) @
        [Omp_barrier] @
        (if tid l = 0 then [MPI_Win_free] else []) @
        [Omp_barrier])"

definition thread_body ::
  "'d arith \<Rightarrow> 'd env \<Rightarrow> int \<Rightarrow> bench_globals \<Rightarrow> int \<Rightarrow> 'd action list option" where
  "thread_body A e rank g t = map_option (body_of_locals A e rank) (thread_prologue g t)"

text \<open>
  The contents of \<^verbatim>\<open>t_elapsed\<close> after the parallel region: zeroed by \<^verbatim>\<open>calloc\<close>, and
  on the putter written once by each thread.
\<close>

definition t_elapsed_after :: "'d arith \<Rightarrow> 'd env \<Rightarrow> int \<Rightarrow> bench_globals \<Rightarrow> 'd list" where
  "t_elapsed_after A e rank g =
     map (\<lambda>t. if rank mod 2 = 0 then sub_d A (t_end e t) (t_start e t) else of_int_d A 0)
       [0 .. num_threads g - 1]"

text \<open>
  \<^verbatim>\<open>run_bench\<close>. The result is \<open>None\<close> where the C program has no defined behaviour:
  a division by zero or an overflow in the \<^verbatim>\<open>int\<close> arithmetic, or a thread count below one
  (the \<^verbatim>\<open>calloc\<close> of a negative count and the team size are then not defined).
\<close>

definition run_bench ::
  "'d arith \<Rightarrow> 'd env \<Rightarrow> int \<Rightarrow> bench_globals \<Rightarrow> ('d step list \<times> int) option" where
  "run_bench A e rank g0 =
     Option.bind (normalize_messages g0) (\<lambda>g.
     if num_threads g < 1 then None else
     Option.bind (those (map (thread_body A e rank g) [0 .. num_threads g - 1])) (\<lambda>bodies.
     Some
       (map Do
          ([Calloc (num_threads g) 8] @
           (if rank mod 2 = 0 then [] else [Posix_memalign (contig_buffer_size g)]) @
           (if rank mod 2 = 0 then [MPI_Win_create 0]
            else [MPI_Win_create (contig_buffer_size g)]) @
           (if rank mod 2 = 0 then [MPI_Win_lock_all] else [])) @
        [Omp_parallel bodies] @
        map Do
          ((if rank mod 2 = 0 then [MPI_Win_unlock_all, MPI_Win_free] else []) @
           [MPI_Barrier] @
           (if rank mod 2 = 0
            then [Report (snd (report_block A g
                            ((junk e)\<lparr>t_elapsed := t_elapsed_after A e rank g\<rparr>)))]
            else []) @
           [MPI_Barrier, Free_contig_buf]),
        0)))"

section \<open>The command line\<close>

text \<open>
  \<^verbatim>\<open>getopt_long\<close> and \<^verbatim>\<open>atoi\<close> belong to the C library. The model takes the command
  line as the list of option occurrences \<^verbatim>\<open>getopt_long\<close> finds on it, each a short option
  (\<^verbatim>\<open>-T 4\<close>) or a long one (\<^verbatim>\<open>--threads=4\<close>, \<^verbatim>\<open>--thr=4\<close>) with its argument if one is
  given, and the operands left over. The code \<^verbatim>\<open>getopt_long\<close> returns for an occurrence follows from
  the option string and the table of long options, both taken from \<^verbatim>\<open>main\<close>.
\<close>

datatype cli_opt = Short char "string option" | Long string "string option"

record cli =
  opts :: "cli_opt list"
  operands :: "string list"

definition optstring :: string where
  "optstring = ''h?T:W:M:S:''"

text \<open>The entries of \<^verbatim>\<open>long_options\<close>: name, \<^verbatim>\<open>has_arg\<close>, \<^verbatim>\<open>val\<close>.\<close>

definition long_options :: "(string \<times> int \<times> char) list" where
  "long_options =
     [(''threads'', 1, CHR ''T''), (''window-size'', 1, CHR ''W''),
      (''num-messages'', 1, CHR ''M''), (''message-size'', 1, CHR ''S'')]"

text \<open>Whether the option string declares \<open>c\<close>, and whether with an argument.\<close>

fun short_spec :: "string \<Rightarrow> char \<Rightarrow> bool option" where
  "short_spec [] c = None"
| "short_spec (x # xs) c =
     (if x = c \<and> c \<noteq> CHR '':'' then Some (case xs of [] \<Rightarrow> False | y # _ \<Rightarrow> y = CHR '':'')
      else short_spec xs c)"

text \<open>
  The entry of \<^verbatim>\<open>long_options\<close> that a long option names: the entry with that name,
  or else the only entry the name is a prefix of. A name that is a prefix of several
  entries is ambiguous and names none.
\<close>

definition long_match :: "string \<Rightarrow> (int \<times> char) option" where
  "long_match n =
     (case map_of long_options n of
        Some r \<Rightarrow> Some r
      | None \<Rightarrow>
          (case filter (\<lambda>(name, r). take (length n) name = n) long_options of
             [(name, r)] \<Rightarrow> Some r
           | _ \<Rightarrow> None))"

text \<open>
  The value \<^verbatim>\<open>getopt_long\<close> returns for an occurrence, with \<^verbatim>\<open>optarg\<close>: the option's
  letter or \<^verbatim>\<open>val\<close>, and \<^verbatim>\<open>'?'\<close> for an option that is not declared or lacks its argument.
\<close>

definition getopt_long :: "cli_opt \<Rightarrow> char \<times> string" where
  "getopt_long oc =
     (case oc of
        Short c a \<Rightarrow>
          (case short_spec optstring c of
             None \<Rightarrow> (CHR ''?'', [])
           | Some False \<Rightarrow> (c, [])
           | Some True \<Rightarrow> (case a of None \<Rightarrow> (CHR ''?'', []) | Some s \<Rightarrow> (c, s)))
      | Long n a \<Rightarrow>
          (case long_match n of
             None \<Rightarrow> (CHR ''?'', [])
           | Some (has_arg, v) \<Rightarrow>
               (if has_arg = 0 then (v, [])
                else (case a of None \<Rightarrow> (CHR ''?'', []) | Some s \<Rightarrow> (v, s)))))"

text \<open>
  \<^verbatim>\<open>atoi\<close>: leading white space, an optional sign, then decimal digits up to the first
  other character. A value outside \<^verbatim>\<open>int\<close> is undefined.
\<close>

definition is_space :: "char \<Rightarrow> bool" where
  "is_space c \<longleftrightarrow> c \<in> set [CHR '' '', CHR 0x09, CHR 0x0A, CHR 0x0B, CHR 0x0C, CHR 0x0D]"

definition is_digit :: "char \<Rightarrow> bool" where
  "is_digit c \<longleftrightarrow> (48::nat) \<le> of_char c \<and> of_char c \<le> (57::nat)"

fun digits_val :: "int \<Rightarrow> string \<Rightarrow> int" where
  "digits_val acc [] = acc"
| "digits_val acc (c # cs) =
     (if is_digit c then digits_val (10 * acc + (of_char c - 48)) cs else acc)"

definition atoi :: "string \<Rightarrow> int option" where
  "atoi s =
     (let s1 = dropWhile is_space s;
          v = (case s1 of
                 [] \<Rightarrow> 0
               | c # cs \<Rightarrow>
                   if c = CHR ''-'' then - digits_val 0 cs
                   else if c = CHR ''+'' then digits_val 0 cs
                   else digits_val 0 s1)
      in if is_c_int v then Some v else None)"

definition EXIT_FAILURE :: int where
  "EXIT_FAILURE = 1"

datatype outcome = Return int | Aborted int | Undefined

datatype 'd parsed = Exit "'d step list" int | Parsed bench_globals | Parse_undefined

text \<open>The \<^verbatim>\<open>while (1)\<close> loop of \<^verbatim>\<open>main\<close> with its \<^verbatim>\<open>switch\<close>.\<close>

fun parse_loop :: "cli_opt list \<Rightarrow> bench_globals \<Rightarrow> 'd parsed" where
  "parse_loop [] g = Parsed g"
| "parse_loop (oc # ocs) g =
     (let (op, optarg) = getopt_long oc in
      if op = CHR ''?'' \<or> op = CHR ''h'' then Exit [Do Print_usage] (- 1)
      else if op = CHR ''T'' then
        (case atoi optarg of None \<Rightarrow> Parse_undefined
         | Some n \<Rightarrow> parse_loop ocs (g\<lparr>num_threads := n\<rparr>))
      else if op = CHR ''M'' then
        (case atoi optarg of None \<Rightarrow> Parse_undefined
         | Some n \<Rightarrow> parse_loop ocs (g\<lparr>num_messages := n\<rparr>))
      else if op = CHR ''S'' then
        (case atoi optarg of None \<Rightarrow> Parse_undefined
         | Some n \<Rightarrow> parse_loop ocs (g\<lparr>message_size := n\<rparr>))
      else Exit [Do (Printf (''Unrecognized argument'' @ [CHR 0x0A]))] EXIT_FAILURE)"

definition large_message_default :: "bench_globals \<Rightarrow> bench_globals" where
  "large_message_default g =
     (if message_size g > LARGE_MSG_TH then
        (if num_messages g = DEF_NUM_MESSAGES then g\<lparr>num_messages := DEF_LARGE_NUM_MESSAGES\<rparr>
         else g)
      else g)"

text \<open>\<^verbatim>\<open>main\<close>. \<^verbatim>\<open>MPI_Abort\<close> does not return.\<close>

definition main :: "'d arith \<Rightarrow> 'd env \<Rightarrow> cli \<Rightarrow> 'd step list \<times> outcome" where
  "main A e c =
     (case parse_loop (opts c)
             \<lparr>num_threads = DEF_NUM_THREADS, num_messages = DEF_NUM_MESSAGES,
              message_size = DEF_MESSAGE_SIZE\<rparr> of
        Exit out r \<Rightarrow> (out, Return r)
      | Parse_undefined \<Rightarrow> ([], Undefined)
      | Parsed g0 \<Rightarrow>
          if operands c \<noteq> [] then ([Do Print_usage], Return (- 1))
          else
            let g = large_message_default g0 in
            if provided e \<noteq> MPI_THREAD_MULTIPLE then
              (map Do [MPI_Init_thread, Printf (''Thread multiple needed'' @ [CHR 0x0A]),
                       MPI_Abort 1],
               Aborted 1)
            else if comm_size e \<noteq> 2 then
              (map Do [MPI_Init_thread, MPI_Comm_size,
                       Printf (''Run with only two processes for MPI+threads.'' @ [CHR 0x0A]),
                       MPI_Abort 1],
               Aborted 1)
            else
              (let pre = map Do [MPI_Init_thread, MPI_Comm_size,
                                 Omp_set_num_threads (num_threads g), MPI_Comm_rank]
               in case run_bench A e (comm_rank e) g of
                    None \<Rightarrow> (pre, Undefined)
                  | Some (tr, ret) \<Rightarrow>
                      if ret \<noteq> 0 then
                        (pre @ tr @
                           map Do [Fprintf_stderr (''Error in running bench '' @ [CHR 0x0A]),
                                   MPI_Finalize],
                         Return EXIT_FAILURE)
                      else (pre @ tr @ [Do MPI_Finalize], Return ret)))"

section \<open>Phases of a run\<close>

text \<open>
  The calls of a process in the program order of its master thread, and every call of
  every thread.
\<close>

definition master_order :: "'d step list \<Rightarrow> 'd action list" where
  "master_order tr =
     concat (map (\<lambda>s. case s of Do a \<Rightarrow> [a]
                            | Omp_parallel bs \<Rightarrow> (case bs of [] \<Rightarrow> [] | b # _ \<Rightarrow> b)) tr)"

definition all_actions :: "'d step list \<Rightarrow> 'd action set" where
  "all_actions tr =
     (\<Union>s \<in> set tr. case s of Do a \<Rightarrow> {a} | Omp_parallel bs \<Rightarrow> (\<Union>b \<in> set bs. set b))"

text \<open>
  The phases of the orchestrator, read off the calls: creating the window, opening the
  epoch, a put loop (warm-up before the first clock reading, measured after it), a barrier
  across the two processes (numbered in the order they are reached), closing the epoch,
  freeing the window, printing the report.
\<close>

datatype phase =
    Idle | WindowReady | EpochOpen | Warmup | Barrier nat | Measuring
  | EpochClosed | WindowFreed | Reported

fun phases :: "bool \<Rightarrow> nat \<Rightarrow> 'd action list \<Rightarrow> phase list" where
  "phases timing k [] = []"
| "phases timing k (MPI_Win_create n # as) = WindowReady # phases timing k as"
| "phases timing k (MPI_Win_lock_all # as) = EpochOpen # phases timing k as"
| "phases timing k (Rma_loop ops # as) =
     (if timing then Measuring else Warmup) # phases timing k as"
| "phases timing k (MPI_Wtime # as) = phases True k as"
| "phases timing k (MPI_Barrier # as) = Barrier (Suc k) # phases timing (Suc k) as"
| "phases timing k (MPI_Win_unlock_all # as) = EpochClosed # phases timing k as"
| "phases timing k (MPI_Win_free # as) = WindowFreed # phases timing k as"
| "phases timing k (Report ls # as) = Reported # phases timing k as"
| "phases timing k (_ # as) = phases timing k as"

definition run_phases :: "'d step list \<Rightarrow> phase list" where
  "run_phases tr = Idle # phases False 0 (master_order tr)"

text \<open>The phase sequence of the sender as the specification gives it.\<close>

definition spec_sender_phases :: "phase list" where
  "spec_sender_phases =
     [Idle, WindowReady, EpochOpen, Warmup, Barrier 1, Measuring, Barrier 2,
      EpochClosed, WindowFreed, Barrier 3, Reported]"

text \<open>The calls that allocate a buffer or create a window.\<close>

fun is_allocation :: "'d action \<Rightarrow> bool" where
  "is_allocation (Calloc n sz) = True"
| "is_allocation (Posix_memalign n) = True"
| "is_allocation (MPI_Win_create n) = True"
| "is_allocation _ = False"

fun is_report :: "'d action \<Rightarrow> bool" where
  "is_report (Report ls) = True"
| "is_report _ = False"

text \<open>An environment for concrete runs: rank 0 of two, one second measured by every thread.\<close>

definition example_env :: "real env" where
  "example_env =
     \<lparr>provided = MPI_THREAD_MULTIPLE, comm_size = 2, comm_rank = 0,
      t_start = (\<lambda>t. 0), t_end = (\<lambda>t. 1),
      junk = \<lparr>t_elapsed = [], msg_rate = 7, my_msg_rate = 7, bandwidth = 7,
              my_bandwidth = 7\<rparr>\<rparr>"

section \<open>Facts about the integer operations\<close>

lemma c_quot_pos: "0 \<le> a \<Longrightarrow> 0 < b \<Longrightarrow> c_quot a b = a div b"
  by (simp add: c_quot_def)

lemma div_le_dividend: "0 \<le> (a::int) \<Longrightarrow> a div b \<le> a"
  by (cases "a = 0") (simp_all add: int_div_le_self)

lemma c_div_pos:
  assumes "0 \<le> a" "a \<le> INT_MAX" "0 < b"
  shows "c_div a b = Some (a div b)"
proof -
  have "0 \<le> a div b" using assms by (simp add: pos_imp_zdiv_nonneg_iff)
  moreover have "a div b \<le> a" using assms by (simp add: div_le_dividend)
  ultimately have "is_c_int (a div b)"
    using assms by (simp add: is_c_int_def INT_MIN_def)
  then show ?thesis using assms by (simp add: c_div_def c_quot_pos)
qed

lemma mult_div_le: "0 < (w::int) \<Longrightarrow> w * (q div w) \<le> q"
  by (metis mult.commute div_mult_mod_eq le_add_same_cancel1 pos_mod_sign)

lemma normalize_count_pos:
  assumes "0 < nt" "0 < w" "0 < nm" "nm \<le> INT_MAX"
  shows "normalize_count w nm nt = Some (w * (nm div nt div w))"
proof -
  let ?q = "nm div nt"
  have q0: "0 \<le> ?q" using assms by (simp add: pos_imp_zdiv_nonneg_iff)
  have qle: "?q \<le> nm" using assms by (simp add: div_le_dividend)
  have d1: "c_div nm nt = Some ?q" using assms by (simp add: c_div_pos)
  have d2: "c_div ?q w = Some (?q div w)" using assms q0 qle by (simp add: c_div_pos)
  have k0: "0 \<le> ?q div w" using assms q0 by (simp add: pos_imp_zdiv_nonneg_iff)
  have "w * (?q div w) \<le> ?q" using assms by (simp add: mult_div_le)
  moreover have "0 \<le> w * (?q div w)" using assms k0 by simp
  ultimately have "is_c_int (w * (?q div w))"
    using assms qle by (simp add: is_c_int_def INT_MIN_def)
  then show ?thesis by (simp add: normalize_count_def d1 d2 c_mul_def)
qed

lemma accuracy_warning_multiple:
  assumes "0 \<le> k" "WINDOW_SIZE * k \<le> INT_MAX"
  shows "accuracy_warning (WINDOW_SIZE * k) = Some False"
proof -
  have "c_div (WINDOW_SIZE * k) WINDOW_SIZE = Some (WINDOW_SIZE * k div WINDOW_SIZE)"
    using assms by (intro c_div_pos) (simp_all add: WINDOW_SIZE_def)
  then have wp: "win_posts_of (WINDOW_SIZE * k) = Some k"
    by (simp add: win_posts_of_def WINDOW_SIZE_def)
  have "is_c_int (k * WINDOW_SIZE)"
    using assms by (simp add: is_c_int_def INT_MIN_def WINDOW_SIZE_def)
  then show ?thesis by (simp add: accuracy_warning_def wp c_mul_def mult.commute)
qed

lemma le_div_iff_mult_le:
  assumes "0 < (nt::int)"
  shows "(k \<le> nm div nt) = (k * nt \<le> nm)"
proof
  assume "k \<le> nm div nt"
  then have "k * nt \<le> (nm div nt) * nt" using assms by (simp add: mult_right_mono)
  also have "\<dots> \<le> nm" using assms mult_div_le [of nt nm] by (simp add: mult.commute)
  finally show "k * nt \<le> nm" .
next
  assume "k * nt \<le> nm"
  then have "k * nt div nt \<le> nm div nt" using assms by (rule zdiv_mono1)
  then show "k \<le> nm div nt" using assms by simp
qed

lemma multiple_le:
  assumes "0 < (w::int)" "m mod w = 0" "m \<le> q"
  shows "m \<le> w * (q div w)"
proof -
  have "m = w * (m div w)" using assms(2) by auto
  moreover have "m div w \<le> q div w" using assms by (simp add: zdiv_mono1)
  ultimately show ?thesis using assms(1) by (metis mult_left_mono less_imp_le)
qed

lemma slots_disjoint:
  assumes "0 < (ms::int)" "i \<noteq> j"
  shows "slot ms i \<inter> slot ms j = {}"
proof -
  have *: "slot ms a \<inter> slot ms b = {}" if "a < b" for a b
  proof -
    from that have "a + 1 \<le> b" by simp
    then have "(a + 1) * ms \<le> b * ms" using assms(1) by (simp add: mult_right_mono)
    then show ?thesis by (auto simp: slot_def)
  qed
  from assms(2) consider "i < j" | "j < i" by linarith
  then show ?thesis
  proof cases
    case 1 then show ?thesis by (rule *)
  next
    case 2 then show ?thesis using * [of j i] by (simp add: Int_commute)
  qed
qed

lemma put_loop_replicate:
  "put_loop win_i rank disp sz = replicate (nat (WINDOW_SIZE - win_i)) (MPI_Put (rank + 1) disp sz)"
proof (induction win_i rank disp sz rule: put_loop.induct)
  case (1 win_i rank disp sz)
  show ?case
  proof (cases "win_i < WINDOW_SIZE")
    case True
    then have "nat (WINDOW_SIZE - win_i) = Suc (nat (WINDOW_SIZE - (win_i + 1)))" by simp
    with True 1 show ?thesis by (subst put_loop.simps) simp
  next
    case False
    then show ?thesis by (subst put_loop.simps) simp
  qed
qed

lemma post_loop_replicate:
  "post_loop win_post_i wp rank disp sz =
     concat (replicate (nat (wp - win_post_i))
       (replicate (nat WINDOW_SIZE) (MPI_Put (rank + 1) disp sz) @ [MPI_Win_flush (rank + 1)]))"
proof (induction win_post_i wp rank disp sz rule: post_loop.induct)
  case (1 win_post_i wp rank disp sz)
  show ?case
  proof (cases "win_post_i < wp")
    case True
    then have "nat (wp - win_post_i) = Suc (nat (wp - (win_post_i + 1)))" by simp
    with True 1 show ?thesis by (subst post_loop.simps) (simp add: put_loop_replicate)
  next
    case False
    then show ?thesis by (subst post_loop.simps) simp
  qed
qed

lemma post_loop_puts:
  assumes "MPI_Put r d n \<in> set (post_loop win_post_i wp rank disp sz)"
  shows "r = rank + 1 \<and> d = disp \<and> n = sz"
  using assms by (auto simp: post_loop_replicate split: if_splits)

lemma thread_prologue_normalized:
  assumes "0 \<le> k" "WINDOW_SIZE * k \<le> INT_MAX" "is_c_int (t * message_size g)"
    and "num_messages g = WINDOW_SIZE * k"
  shows "thread_prologue g t =
           Some \<lparr>tid = t, my_message_size = message_size g, target_disp = t * message_size g,
                 win_posts = k, warning = False\<rparr>"
proof -
  have "c_div (WINDOW_SIZE * k) WINDOW_SIZE = Some (WINDOW_SIZE * k div WINDOW_SIZE)"
    using assms by (intro c_div_pos) (simp_all add: WINDOW_SIZE_def)
  then have wp: "win_posts_of (num_messages g) = Some k"
    using assms(4) by (simp add: win_posts_of_def WINDOW_SIZE_def)
  have aw: "accuracy_warning (num_messages g) = Some False"
    using assms by (simp add: accuracy_warning_multiple)
  show ?thesis
    using assms(3) by (simp add: thread_prologue_def target_disp_of_def c_mul_def wp aw)
qed

lemma those_map_Some:
  "(\<And>x. x \<in> set xs \<Longrightarrow> f x = Some (h x)) \<Longrightarrow> those (map f xs) = Some (map h xs)"
  by (induction xs) simp_all

lemma thread_ids_in_range:
  assumes "0 < ms" "(nt - 1) * ms \<le> INT_MAX" "t \<in> set [0 .. nt - 1]"
  shows "is_c_int (t * ms)"
proof -
  from assms(3) have t: "0 \<le> t" "t \<le> nt - 1" by simp_all
  then have "t * ms \<le> (nt - 1) * ms" using assms(1) by (simp add: mult_right_mono)
  moreover have "0 \<le> t * ms" using t assms(1) by simp
  ultimately show ?thesis using assms(2) by (simp add: is_c_int_def INT_MIN_def)
qed

section \<open>The run with positive parameters\<close>

lemma thread_body_normalized:
  assumes "0 \<le> k" "WINDOW_SIZE * k \<le> INT_MAX" "is_c_int (t * message_size g)"
    and "num_messages g = WINDOW_SIZE * k"
  shows "thread_body A e rank g t =
           Some (body_of_locals A e rank
                  \<lparr>tid = t, my_message_size = message_size g, target_disp = t * message_size g,
                   win_posts = k, warning = False\<rparr>)"
  by (simp add: thread_body_def thread_prologue_normalized [OF assms])

lemma run_bench_normal:
  assumes "0 < nt" "0 < nm" "nm \<le> INT_MAX" "0 < ms" "(nt - 1) * ms \<le> INT_MAX"
  defines "k \<equiv> nm div nt div WINDOW_SIZE"
  defines "g \<equiv> \<lparr>num_threads = nt, num_messages = WINDOW_SIZE * k, message_size = ms\<rparr>"
  shows "run_bench A e rank \<lparr>num_threads = nt, num_messages = nm, message_size = ms\<rparr> =
    Some
       (map Do
          ([Calloc nt 8] @
           (if rank mod 2 = 0 then [] else [Posix_memalign (contig_buffer_size g)]) @
           (if rank mod 2 = 0 then [MPI_Win_create 0]
            else [MPI_Win_create (contig_buffer_size g)]) @
           (if rank mod 2 = 0 then [MPI_Win_lock_all] else [])) @
        [Omp_parallel (map (\<lambda>t. body_of_locals A e rank
                  \<lparr>tid = t, my_message_size = ms, target_disp = t * ms,
                   win_posts = k, warning = False\<rparr>) [0 .. nt - 1])] @
        map Do
          ((if rank mod 2 = 0 then [MPI_Win_unlock_all, MPI_Win_free] else []) @
           [MPI_Barrier] @
           (if rank mod 2 = 0
            then [Report (snd (report_block A g
                            ((junk e)\<lparr>t_elapsed := t_elapsed_after A e rank g\<rparr>)))]
            else []) @
           [MPI_Barrier, Free_contig_buf]),
        0)"
proof -
  have w: "0 < WINDOW_SIZE" by (simp add: WINDOW_SIZE_def)
  have n: "normalize_messages \<lparr>num_threads = nt, num_messages = nm, message_size = ms\<rparr> = Some g"
    using assms(1-3) w by (simp add: normalize_messages_def normalize_count_pos g_def k_def)
  have q0: "0 \<le> nm div nt" using assms by (simp add: pos_imp_zdiv_nonneg_iff)
  have k0: "0 \<le> k" using q0 w by (simp add: k_def pos_imp_zdiv_nonneg_iff)
  have "WINDOW_SIZE * k \<le> nm div nt" using w by (simp add: k_def mult_div_le)
  also have "\<dots> \<le> nm" using assms by (simp add: div_le_dividend)
  finally have kle: "WINDOW_SIZE * k \<le> INT_MAX" using assms(3) by simp
  have bodies: "those (map (thread_body A e rank g) [0 .. num_threads g - 1]) =
      Some (map (\<lambda>t. body_of_locals A e rank
                  \<lparr>tid = t, my_message_size = ms, target_disp = t * ms,
                   win_posts = k, warning = False\<rparr>) [0 .. num_threads g - 1])"
  proof (rule those_map_Some)
    fix t assume "t \<in> set [0 .. num_threads g - 1]"
    then have "is_c_int (t * message_size g)"
      using assms(4,5) thread_ids_in_range [of ms nt t] by (simp add: g_def)
    from thread_body_normalized [OF k0 kle this, of A e rank]
    show "thread_body A e rank g t = Some (body_of_locals A e rank
                  \<lparr>tid = t, my_message_size = ms, target_disp = t * ms,
                   win_posts = k, warning = False\<rparr>)"
      by (simp add: g_def)
  qed
  have nt1: "\<not> num_threads g < 1" using assms(1) by (simp add: g_def)
  show ?thesis
    unfolding run_bench_def n using nt1 bodies by (simp add: g_def)
qed

section \<open>Normalization of the message count\<close>

text \<open>
  Claim C1. For positive \<open>num_threads\<close>, window size and \<open>num_messages\<close> (an
  \<^verbatim>\<open>int\<close>), the first statement of \<^verbatim>\<open>run_bench\<close> is defined and sets the per-thread
  count to \<open>w * (num_messages div num_threads div w)\<close>. That value is a multiple of \<open>w\<close>,
  is at most \<open>num_messages div num_threads\<close>, and no larger multiple of \<open>w\<close> is. The
  program runs it with \<open>w = WINDOW_SIZE\<close>; for one thread and 640000 messages the count
  stays 640000.
\<close>

theorem normalization_largest_multiple:
  assumes "0 < nt" "0 < w" "0 < nm" "nm \<le> INT_MAX"
  shows "normalize_count w nm nt = Some (w * (nm div nt div w))
       \<and> (w * (nm div nt div w)) mod w = 0
       \<and> w * (nm div nt div w) \<le> nm div nt
       \<and> (\<forall>m. m mod w = 0 \<and> m \<le> nm div nt \<longrightarrow> m \<le> w * (nm div nt div w))
       \<and> normalize_messages \<lparr>num_threads = nt, num_messages = nm, message_size = ms\<rparr> =
           Some \<lparr>num_threads = nt,
                 num_messages = WINDOW_SIZE * (nm div nt div WINDOW_SIZE),
                 message_size = ms\<rparr>
       \<and> normalize_messages \<lparr>num_threads = 1, num_messages = 640000, message_size = 8\<rparr> =
           Some \<lparr>num_threads = 1, num_messages = 640000, message_size = 8\<rparr>"
proof -
  have w64: "0 < WINDOW_SIZE" by (simp add: WINDOW_SIZE_def)
  have a: "normalize_count w nm nt = Some (w * (nm div nt div w))"
    using assms by (rule normalize_count_pos)
  have b: "(w * (nm div nt div w)) mod w = 0" by simp
  have c: "w * (nm div nt div w) \<le> nm div nt" using assms(2) by (rule mult_div_le)
  have d: "\<forall>m. m mod w = 0 \<and> m \<le> nm div nt \<longrightarrow> m \<le> w * (nm div nt div w)"
    using assms(2) by (simp add: multiple_le)
  have e: "normalize_messages \<lparr>num_threads = nt, num_messages = nm, message_size = ms\<rparr> =
           Some \<lparr>num_threads = nt,
                 num_messages = WINDOW_SIZE * (nm div nt div WINDOW_SIZE),
                 message_size = ms\<rparr>"
    using assms w64 by (simp add: normalize_messages_def normalize_count_pos)
  have "normalize_count WINDOW_SIZE 640000 1 = Some (WINDOW_SIZE * (640000 div 1 div WINDOW_SIZE))"
    using w64 by (intro normalize_count_pos) (simp_all add: INT_MAX_def)
  then have f: "normalize_messages \<lparr>num_threads = 1, num_messages = 640000, message_size = 8\<rparr> =
           Some \<lparr>num_threads = 1, num_messages = 640000, message_size = 8\<rparr>"
    by (simp add: normalize_messages_def WINDOW_SIZE_def)
  from a b c d e f show ?thesis by blast
qed

theorem normalization_largest_multiple_witness:
  "normalize_count 64 640000 4 = Some 160000
   \<and> normalize_messages \<lparr>num_threads = 4, num_messages = 640000, message_size = 8\<rparr> =
       Some \<lparr>num_threads = 4, num_messages = 160000, message_size = 8\<rparr>"
  using normalization_largest_multiple [of 4 64 640000 8]
  by (simp add: INT_MAX_def WINDOW_SIZE_def)

section \<open>The accuracy warning\<close>

lemma example_env_fields:
  "provided example_env = MPI_THREAD_MULTIPLE" "comm_size example_env = 2"
  "comm_rank example_env = 0"
  by (simp_all add: example_env_def)

text \<open>
  Claim C2. A configuration whose requested \<open>num_messages\<close> is not \<open>num_threads\<close> times
  the normalized count should print the accuracy warning. Run with \<^verbatim>\<open>-M 100\<close> (one
  thread): normalization keeps 64 of the 100 messages, the test that guards the warning
  reads the normalized count and is false, and the run returns 0 with the warning printed
  by no thread. With four threads and 640000 messages the count of each thread is 160000,
  nothing is dropped, and the test is false.
\<close>

theorem warning_missing_when_messages_dropped:
  "normalize_count WINDOW_SIZE 100 1 = Some 64 \<and> (100::int) \<noteq> 1 * 64
   \<and> accuracy_warning 64 = Some False
   \<and> (case run_bench real_arith example_env 0
               \<lparr>num_threads = 1, num_messages = 100, message_size = 8\<rparr> of
         None \<Rightarrow> False
       | Some (tr, ret) \<Rightarrow> ret = 0 \<and> Printf warning_text \<notin> all_actions tr)
   \<and> snd (main real_arith example_env
             \<lparr>opts = [Short CHR ''M'' (Some ''100'')], operands = []\<rparr>) = Return 0
   \<and> Printf warning_text
        \<notin> all_actions (fst (main real_arith example_env
                              \<lparr>opts = [Short CHR ''M'' (Some ''100'')], operands = []\<rparr>))
   \<and> normalize_count WINDOW_SIZE 640000 4 = Some 160000
   \<and> accuracy_warning 160000 = Some False"
proof -
  have a: "normalize_count WINDOW_SIZE 100 1 = Some 64 \<and> (100::int) \<noteq> 1 * 64
     \<and> accuracy_warning 64 = Some False
     \<and> normalize_count WINDOW_SIZE 640000 4 = Some 160000
     \<and> accuracy_warning 160000 = Some False"
    by (simp add: normalize_count_def accuracy_warning_def win_posts_of_def c_div_def c_mul_def
        c_quot_def is_c_int_def INT_MIN_def INT_MAX_def WINDOW_SIZE_def)
  have r: "run_bench real_arith example_env 0
             \<lparr>num_threads = 1, num_messages = 100, message_size = 8\<rparr> =
           Some (map Do [Calloc 1 8, MPI_Win_create 0, MPI_Win_lock_all] @
                 [Omp_parallel [body_of_locals real_arith example_env 0
                    \<lparr>tid = 0, my_message_size = 8, target_disp = 0, win_posts = 1,
                     warning = False\<rparr>]] @
                 map Do [MPI_Win_unlock_all, MPI_Win_free, MPI_Barrier,
                   Report (snd (report_block real_arith
                      \<lparr>num_threads = 1, num_messages = 64, message_size = 8\<rparr>
                      ((junk example_env)\<lparr>t_elapsed :=
                         t_elapsed_after real_arith example_env 0
                           \<lparr>num_threads = 1, num_messages = 64, message_size = 8\<rparr>\<rparr>))),
                   MPI_Barrier, Free_contig_buf], 0)"
    using run_bench_normal [of 1 100 8 real_arith example_env 0]
    by (simp add: INT_MAX_def WINDOW_SIZE_def)
  have b: "case run_bench real_arith example_env 0
               \<lparr>num_threads = 1, num_messages = 100, message_size = 8\<rparr> of
         None \<Rightarrow> False
       | Some (tr, ret) \<Rightarrow> ret = 0 \<and> Printf warning_text \<notin> all_actions tr"
    unfolding r by (simp add: all_actions_def body_of_locals_def)
  have p: "parse_loop [Short CHR ''M'' (Some ''100'')]
             \<lparr>num_threads = DEF_NUM_THREADS, num_messages = DEF_NUM_MESSAGES,
              message_size = DEF_MESSAGE_SIZE\<rparr>
           = (Parsed \<lparr>num_threads = 1, num_messages = 100, message_size = 8\<rparr> :: real parsed)"
    by (simp add: getopt_long_def optstring_def atoi_def is_space_def is_digit_def
        is_c_int_def INT_MIN_def INT_MAX_def DEF_NUM_THREADS_def DEF_MESSAGE_SIZE_def)
  have m: "main real_arith example_env \<lparr>opts = [Short CHR ''M'' (Some ''100'')], operands = []\<rparr>
           = (map Do [MPI_Init_thread, MPI_Comm_size, Omp_set_num_threads 1, MPI_Comm_rank] @
              fst (the (run_bench real_arith example_env 0
                     \<lparr>num_threads = 1, num_messages = 100, message_size = 8\<rparr>)) @
              [Do MPI_Finalize], Return 0)"
    by (simp only: main_def cli.simps p)
       (simp add: example_env_fields r large_message_default_def LARGE_MSG_TH_def)
  have c: "snd (main real_arith example_env
             \<lparr>opts = [Short CHR ''M'' (Some ''100'')], operands = []\<rparr>) = Return 0
   \<and> Printf warning_text
        \<notin> all_actions (fst (main real_arith example_env
                              \<lparr>opts = [Short CHR ''M'' (Some ''100'')], operands = []\<rparr>))"
    unfolding m r by (simp add: all_actions_def body_of_locals_def)
  from a b c show ?thesis by blast
qed

section \<open>The number of batches\<close>

text \<open>
  With four threads and 100 requested messages the normalized count is 0 and every thread
  runs zero batches.
\<close>

theorem batch_count_counterexample:
  "normalize_count WINDOW_SIZE 100 4 = Some 0 \<and> win_posts_of 0 = Some 0"
  by (simp add: normalize_count_def win_posts_of_def c_div_def c_mul_def
      c_quot_def is_c_int_def INT_MIN_def INT_MAX_def WINDOW_SIZE_def)

text \<open>
  Claim C3, amended. For positive parameters the number of batches of a thread is
  \<open>num_messages div num_threads div WINDOW_SIZE\<close>; it is at least one exactly when
  \<open>num_messages\<close> is at least \<open>WINDOW_SIZE * num_threads\<close>.
\<close>

theorem batch_count_positive_iff:
  assumes "0 < nt" "0 < nm" "nm \<le> INT_MAX"
  shows "normalize_count WINDOW_SIZE nm nt = Some (WINDOW_SIZE * (nm div nt div WINDOW_SIZE))
       \<and> win_posts_of (WINDOW_SIZE * (nm div nt div WINDOW_SIZE)) =
           Some (nm div nt div WINDOW_SIZE)
       \<and> (1 \<le> nm div nt div WINDOW_SIZE \<longleftrightarrow> WINDOW_SIZE * nt \<le> nm)"
proof -
  have w: "0 < WINDOW_SIZE" by (simp add: WINDOW_SIZE_def)
  let ?k = "nm div nt div WINDOW_SIZE"
  have a: "normalize_count WINDOW_SIZE nm nt = Some (WINDOW_SIZE * ?k)"
    using assms w by (simp add: normalize_count_pos)
  have q0: "0 \<le> nm div nt" using assms by (simp add: pos_imp_zdiv_nonneg_iff)
  have k0: "0 \<le> ?k" using q0 w by (simp add: pos_imp_zdiv_nonneg_iff)
  have "WINDOW_SIZE * ?k \<le> nm div nt" using w by (simp add: mult_div_le)
  also have "\<dots> \<le> nm" using assms by (simp add: div_le_dividend)
  finally have kle: "WINDOW_SIZE * ?k \<le> INT_MAX" using assms(3) by simp
  have "c_div (WINDOW_SIZE * ?k) WINDOW_SIZE = Some (WINDOW_SIZE * ?k div WINDOW_SIZE)"
    using k0 kle w by (intro c_div_pos) simp_all
  then have b: "win_posts_of (WINDOW_SIZE * ?k) = Some ?k"
    using w by (simp add: win_posts_of_def)
  have "(1 \<le> ?k) = (1 * WINDOW_SIZE \<le> nm div nt)" using w by (rule le_div_iff_mult_le)
  also have "\<dots> = (WINDOW_SIZE * nt \<le> nm)"
    using le_div_iff_mult_le [OF assms(1), of WINDOW_SIZE nm] by simp
  finally have c: "(1 \<le> ?k) = (WINDOW_SIZE * nt \<le> nm)" .
  from a b c show ?thesis by blast
qed

theorem batch_count_positive_iff_witness:
  "normalize_count WINDOW_SIZE 640000 4 = Some 160000 \<and> win_posts_of 160000 = Some 2500
   \<and> normalize_count WINDOW_SIZE 100 4 = Some 0 \<and> win_posts_of 0 = Some 0"
  using batch_count_positive_iff [of 4 640000] batch_count_positive_iff [of 4 100]
  by (simp add: INT_MAX_def WINDOW_SIZE_def)

section \<open>Slots of the target window\<close>

text \<open>
  Where the displacement of a thread is defined, every put it issues, in the warm-up and in
  the measured loop, starts at \<open>tid * message_size\<close> and is \<open>message_size\<close> bytes long, so
  that it overwrites the slot of the thread; the slots of distinct threads are disjoint
  (\<open>slots_disjoint\<close>).
\<close>

lemma put_bytes_slot: "put_bytes (t * ms) ms = slot ms t"
  by (simp add: put_bytes_def slot_def algebra_simps)

lemma body_puts:
  assumes "Rma_loop ops \<in> set (body_of_locals A e rank l)" "MPI_Put r d n \<in> set ops"
  shows "d = target_disp l \<and> n = my_message_size l"
  using assms by (auto simp: body_of_locals_def split: if_splits dest: post_loop_puts)

lemma thread_body_puts:
  assumes "thread_body A e rank g t = Some b" "Rma_loop ops \<in> set b" "MPI_Put r d n \<in> set ops"
  shows "d = t * message_size g \<and> n = message_size g"
proof -
  from assms(1) obtain l where l: "thread_prologue g t = Some l" "b = body_of_locals A e rank l"
    by (auto simp: thread_body_def)
  from l(1) have "target_disp l = t * message_size g" "my_message_size l = message_size g"
    by (auto simp: thread_prologue_def target_disp_of_def c_mul_def
        split: if_splits Option.bind_splits)
  with body_puts [of ops A e rank l r d n] assms(2,3) l(2) show ?thesis by simp
qed

text \<open>
  Claim C7. Every put of thread \<open>i\<close> should land in slot \<open>i\<close> of the window. Run with
  \<^verbatim>\<open>-T 3 -S 1073741824\<close>: the window size, computed in \<^verbatim>\<open>size_t\<close>, is 3221225472
  bytes and slot 2 is the range from 2147483648 to 3221225472 inside it, but the displacement
  of thread 2, \<^verbatim>\<open>tid * message_size\<close>, is computed in \<^verbatim>\<open>int\<close> and overflows: the thread
  has no defined displacement and the run is undefined.
\<close>

theorem slot_overflow_at_large_messages:
  "snd (main real_arith example_env
          \<lparr>opts = [Short CHR ''T'' (Some ''3''), Short CHR ''S'' (Some ''1073741824'')],
           operands = []\<rparr>) = Undefined
   \<and> contig_buffer_size \<lparr>num_threads = 3, num_messages = 21312, message_size = 1073741824\<rparr>
       = 3221225472
   \<and> slot 1073741824 2 = {2147483648 ..< 3221225472}
   \<and> target_disp_of 2 1073741824 = None
   \<and> thread_body real_arith example_env 0
        \<lparr>num_threads = 3, num_messages = 21312, message_size = 1073741824\<rparr> 2 = None"
proof -
  have p: "parse_loop [Short CHR ''T'' (Some ''3''), Short CHR ''S'' (Some ''1073741824'')]
             \<lparr>num_threads = DEF_NUM_THREADS, num_messages = DEF_NUM_MESSAGES,
              message_size = DEF_MESSAGE_SIZE\<rparr>
           = (Parsed \<lparr>num_threads = 3, num_messages = 640000, message_size = 1073741824\<rparr>
                :: real parsed)"
    by (simp add: getopt_long_def optstring_def atoi_def is_space_def is_digit_def
        is_c_int_def INT_MIN_def INT_MAX_def DEF_NUM_MESSAGES_def)
  have t: "thread_body real_arith example_env 0
        \<lparr>num_threads = 3, num_messages = 21312, message_size = 1073741824\<rparr> 2 = None"
    by (simp add: thread_body_def thread_prologue_def target_disp_of_def c_mul_def
        is_c_int_def INT_MIN_def INT_MAX_def)
  have u: "[0 .. 2] = [0, 1, 2 :: int]" by (simp add: upto_rec1)
  have r: "run_bench real_arith example_env 0
             \<lparr>num_threads = 3, num_messages = 64000, message_size = 1073741824\<rparr> = None"
    by (simp add: run_bench_def normalize_messages_def normalize_count_def c_div_def c_quot_def
        c_mul_def is_c_int_def INT_MIN_def INT_MAX_def WINDOW_SIZE_def t u
        thread_body_def thread_prologue_def target_disp_of_def win_posts_of_def
        accuracy_warning_def)
  have m: "snd (main real_arith example_env
          \<lparr>opts = [Short CHR ''T'' (Some ''3''), Short CHR ''S'' (Some ''1073741824'')],
           operands = []\<rparr>) = Undefined"
    by (simp only: main_def cli.simps p)
       (simp add: example_env_fields r large_message_default_def LARGE_MSG_TH_def
          DEF_NUM_MESSAGES_def DEF_LARGE_NUM_MESSAGES_def)
  have c: "contig_buffer_size \<lparr>num_threads = 3, num_messages = 21312, message_size = 1073741824\<rparr>
       = 3221225472"
    by (simp add: contig_buffer_size_def to_size_t_def)
  have s: "slot 1073741824 2 = {2147483648 ..< 3221225472}" by (simp add: slot_def)
  have d: "target_disp_of 2 1073741824 = None"
    by (simp add: target_disp_of_def c_mul_def is_c_int_def INT_MIN_def INT_MAX_def)
  from m c s d t show ?thesis by blast
qed

section \<open>The aggregation of the rates\<close>

lemma report_loop_done: "\<not> i < num_threads g \<Longrightarrow> report_loop A g i (v, out) = (v, out)"
  by (subst report_loop.simps) simp

lemma report_loop_closed:
  "report_loop A g i (v, out) =
     (v\<lparr>my_msg_rate := (if i < num_threads g
                          then thread_rate A g (t_elapsed v ! nat (num_threads g - 1))
                          else my_msg_rate v),
        my_bandwidth := (if i < num_threads g
                          then thread_bandwidth A g (t_elapsed v ! nat (num_threads g - 1))
                          else my_bandwidth v),
        msg_rate := foldl (add_d A) (msg_rate v)
                      (map (\<lambda>t. thread_rate A g (t_elapsed v ! nat t)) [i .. num_threads g - 1]),
        bandwidth := foldl (add_d A) (bandwidth v)
                      (map (\<lambda>t. thread_bandwidth A g (t_elapsed v ! nat t))
                         [i .. num_threads g - 1])\<rparr>,
      out @ map (\<lambda>t. Thread_row t (thread_rate A g (t_elapsed v ! nat t))
                        (thread_bandwidth A g (t_elapsed v ! nat t)))
              [i .. num_threads g - 1])"
proof (induction A g i "(v, out)" arbitrary: v out rule: report_loop.induct)
  case (1 A g i v out)
  show ?case
  proof (cases "i < num_threads g")
    case True
    then have u: "[i .. num_threads g - 1] = i # [i + 1 .. num_threads g - 1]"
      by (simp add: upto_rec1)
    show ?thesis
    proof (cases "i + 1 < num_threads g")
      case True
      with \<open>i < num_threads g\<close> show ?thesis
        by (subst report_loop.simps) (simp add: Let_def 1 u)
    next
      case False
      with \<open>i < num_threads g\<close> have "i = num_threads g - 1" by simp
      with \<open>i < num_threads g\<close> show ?thesis
        by (subst report_loop.simps) (simp add: Let_def report_loop_done)
    qed
  next
    case False
    then show ?thesis by (subst report_loop.simps) simp
  qed
qed

lemma foldl_add_real: "foldl (+) (a::real) xs = a + sum_list xs"
  by (induction xs arbitrary: a) simp_all

text \<open>
  Claim C9. Whatever the double arithmetic is, the report is a function of the samples,
  the message size and the message count alone: run again on the locals the first run
  left behind, it leaves the same locals and prints the same lines, and it never writes
  \<^verbatim>\<open>t_elapsed\<close>.
\<close>

theorem report_idempotent:
  "report_block A g (fst (report_block A g v)) = report_block A g v
   \<and> t_elapsed (fst (report_block A g v)) = t_elapsed v"
  by (simp add: report_block_def report_loop_closed)


lemma report_block_real:
  "snd (report_block real_arith g v) =
     Thread_header #
     map (\<lambda>t. Thread_row t
                (real_of_int (num_messages g) / t_elapsed v ! nat t / 1000000)
                (real_of_int (message_size g) * real_of_int (num_messages g) / (1024 * 1024)
                   / t_elapsed v ! nat t))
         [0 .. num_threads g - 1] @
     [Summary_header,
      Summary_row (message_size g) (num_threads g)
        (\<Sum>t\<leftarrow>[0 .. num_threads g - 1].
            real_of_int (num_messages g) / t_elapsed v ! nat t / 1000000)
        (\<Sum>t\<leftarrow>[0 .. num_threads g - 1].
            real_of_int (message_size g) * real_of_int (num_messages g) / (1024 * 1024)
              / t_elapsed v ! nat t)]"
  by (simp add: report_block_def report_loop_closed real_arith_def thread_rate_def
      thread_bandwidth_def foldl_add_real)

lemma upto_0_1: "[0 .. 1] = [0, 1 :: int]"
  by (simp add: upto_rec1)

lemma report_block_any:
  "snd (report_block A g u) =
     Thread_header #
     map (\<lambda>t. Thread_row t (thread_rate A g (t_elapsed u ! nat t))
                (thread_bandwidth A g (t_elapsed u ! nat t)))
         [0 .. num_threads g - 1] @
     [Summary_header,
      Summary_row (message_size g) (num_threads g)
        (foldl (add_d A) (of_int_d A 0)
           (map (\<lambda>t. thread_rate A g (t_elapsed u ! nat t)) [0 .. num_threads g - 1]))
        (foldl (add_d A) (of_int_d A 0)
           (map (\<lambda>t. thread_bandwidth A g (t_elapsed u ! nat t)) [0 .. num_threads g - 1]))]"
  by (simp add: report_block_def report_loop_closed)

text \<open>
  Claim C4. For every arithmetic the row of thread \<open>t\<close> holds
  \<open>num_messages / t_elapsed[t] / 1e6\<close> and
  \<open>message_size * num_messages / (1024 * 1024) / t_elapsed[t]\<close>, and the summary row holds
  the two sums accumulated from 0 in thread order. In exact arithmetic, for positive
  samples, the totals are the sums of the per-thread values (no division by the number of
  threads). For the samples 1 and 2 seconds, 1024-byte messages and 1000000 messages per
  thread the rates are 1 and 0.5, the bandwidths 976.5625 and 488.28125, and the total
  rate is 1.5.
\<close>

theorem aggregate_rates:
  assumes "length (t_elapsed v) = nat (num_threads g)" "\<forall>x \<in> set (t_elapsed v). 0 < x"
  shows "snd (report_block A g u) =
     Thread_header #
     map (\<lambda>t. Thread_row t (thread_rate A g (t_elapsed u ! nat t))
                (thread_bandwidth A g (t_elapsed u ! nat t)))
         [0 .. num_threads g - 1] @
     [Summary_header,
      Summary_row (message_size g) (num_threads g)
        (foldl (add_d A) (of_int_d A 0)
           (map (\<lambda>t. thread_rate A g (t_elapsed u ! nat t)) [0 .. num_threads g - 1]))
        (foldl (add_d A) (of_int_d A 0)
           (map (\<lambda>t. thread_bandwidth A g (t_elapsed u ! nat t)) [0 .. num_threads g - 1]))]
   \<and> snd (report_block real_arith g v) =
     Thread_header #
     map (\<lambda>t. Thread_row t
                (real_of_int (num_messages g) / t_elapsed v ! nat t / 1000000)
                (real_of_int (message_size g) * real_of_int (num_messages g) / (1024 * 1024)
                   / t_elapsed v ! nat t))
         [0 .. num_threads g - 1] @
     [Summary_header,
      Summary_row (message_size g) (num_threads g)
        (\<Sum>t\<leftarrow>[0 .. num_threads g - 1].
            real_of_int (num_messages g) / t_elapsed v ! nat t / 1000000)
        (\<Sum>t\<leftarrow>[0 .. num_threads g - 1].
            real_of_int (message_size g) * real_of_int (num_messages g) / (1024 * 1024)
              / t_elapsed v ! nat t)]
   \<and> snd (report_block real_arith
             \<lparr>num_threads = 2, num_messages = 1000000, message_size = 1024\<rparr>
             \<lparr>t_elapsed = [1, 2], msg_rate = a, my_msg_rate = b, bandwidth = c,
              my_bandwidth = d\<rparr>) =
       [Thread_header, Thread_row 0 1 976.5625, Thread_row 1 0.5 488.28125,
        Summary_header, Summary_row 1024 2 1.5 1464.84375]
   \<and> \<bar>976.5625 - 976.56\<bar> < (0.005::real) \<and> \<bar>488.28125 - 488.28\<bar> < (0.005::real)"
  using report_block_any [of A g u] by (simp add: report_block_real upto_0_1)

theorem aggregate_rates_witness:
  "snd (report_block real_arith
             \<lparr>num_threads = 2, num_messages = 128, message_size = 1024\<rparr>
             \<lparr>t_elapsed = [1, 2], msg_rate = 0, my_msg_rate = 0, bandwidth = 0,
              my_bandwidth = 0\<rparr>) =
       [Thread_header, Thread_row 0 0.000128 0.125, Thread_row 1 0.000064 0.0625,
        Summary_header, Summary_row 1024 2 0.000192 0.1875]"
  using aggregate_rates [of "\<lparr>t_elapsed = [1, 2], msg_rate = 0, my_msg_rate = 0, bandwidth = 0,
              my_bandwidth = 0\<rparr>" "\<lparr>num_threads = 2, num_messages = 128, message_size = 1024\<rparr>"
            real_arith "\<lparr>t_elapsed = [], msg_rate = 0, my_msg_rate = 0, bandwidth = 0,
              my_bandwidth = 0\<rparr>"]
  by (simp add: upto_0_1)

section \<open>Rates and elapsed time\<close>

lemma round_even_of_int: "round_even (of_int n) = n"
  by (simp add: round_even_def)

lemma round_even_range: "\<lfloor>y\<rfloor> \<le> round_even y \<and> round_even y \<le> \<lfloor>y\<rfloor> + 1"
  by (simp add: round_even_def Let_def)

lemma round_even_mono:
  assumes "x \<le> y" shows "round_even x \<le> round_even y"
proof (cases "\<lfloor>x\<rfloor> = \<lfloor>y\<rfloor>")
  case True
  with assms have "x - of_int \<lfloor>x\<rfloor> \<le> y - of_int \<lfloor>y\<rfloor>" by simp
  with True show ?thesis by (auto simp: round_even_def Let_def)
next
  case False
  with assms have "\<lfloor>x\<rfloor> < \<lfloor>y\<rfloor>" by (simp add: floor_mono le_neq_trans)
  then have "\<lfloor>x\<rfloor> + 1 \<le> \<lfloor>y\<rfloor>" by simp
  with round_even_range [of x] round_even_range [of y] show ?thesis by linarith
qed

lemma round_even_between:
  assumes "of_int a \<le> z" "z \<le> of_int b"
  shows "real_of_int a \<le> of_int (round_even z) \<and> real_of_int (round_even z) \<le> of_int b"
proof -
  from assms have "round_even (of_int a) \<le> round_even z" "round_even z \<le> round_even (of_int b)"
    by (simp_all only: round_even_mono)
  then have "a \<le> round_even z" "round_even z \<le> b" by (simp_all only: round_even_of_int)
  then show ?thesis by (simp only: of_int_le_iff)
qed

lemma binade:
  assumes "0 < x"
  shows "2 powr of_int \<lfloor>log 2 x\<rfloor> \<le> x \<and> x < 2 powr (of_int \<lfloor>log 2 x\<rfloor> + 1)"
  using assms floor_log_eq_powr_iff [of x 2 "\<lfloor>log 2 x\<rfloor>"] by simp

lemma round_binary64_pos:
  assumes "0 < x"
  shows "round_binary64 x =
           2 powr (of_int \<lfloor>log 2 x\<rfloor> - 52)
             * of_int (round_even (x / 2 powr (of_int \<lfloor>log 2 x\<rfloor> - 52)))"
  using assms by (simp add: round_binary64_def Let_def)

lemma round_binary64_at:
  assumes "0 < x" "2 powr of_int e \<le> x" "x < 2 powr (of_int e + 1)"
  shows "round_binary64 x = 2 powr (of_int e - 52) * of_int (round_even (x / 2 powr (of_int e - 52)))"
proof -
  have "\<lfloor>log 2 x\<rfloor> = e" using assms floor_log_eq_powr_iff [of x 2 e] by simp
  then show ?thesis using assms(1) by (simp add: round_binary64_pos)
qed

lemma round_binary64_in_binade:
  assumes "0 < x"
  shows "2 powr of_int \<lfloor>log 2 x\<rfloor> \<le> round_binary64 x
       \<and> round_binary64 x \<le> 2 powr (of_int \<lfloor>log 2 x\<rfloor> + 1)"
proof -
  let ?e = "\<lfloor>log 2 x\<rfloor>"
  let ?u = "2 powr (of_int ?e - 52) :: real"
  have u: "0 < ?u" by simp
  have lo: "2 powr of_int ?e = ?u * 2 ^ 52" by (simp add: powr_diff)
  have hi: "2 powr (of_int ?e + 1) = ?u * 2 ^ 53" by (simp add: powr_diff powr_add)
  from binade [OF assms] have "?u * 2 ^ 52 \<le> x" "x \<le> ?u * 2 ^ 53" by (simp_all add: lo hi)
  then have "2 ^ 52 \<le> x / ?u" "x / ?u \<le> 2 ^ 53"
    using u by (simp_all add: pos_le_divide_eq pos_divide_le_eq mult.commute)
  then have "(2 ^ 52 :: real) \<le> of_int (round_even (x / ?u))"
    "of_int (round_even (x / ?u)) \<le> (2 ^ 53 :: real)"
    using round_even_between [of "2 ^ 52" "x / ?u" "2 ^ 53"] by simp_all
  then have "?u * 2 ^ 52 \<le> ?u * of_int (round_even (x / ?u))"
    "?u * of_int (round_even (x / ?u)) \<le> ?u * 2 ^ 53"
    using u by simp_all
  then show ?thesis using assms by (simp add: round_binary64_pos lo hi)
qed

lemma round_binary64_mono:
  assumes "0 \<le> x" "x \<le> y"
  shows "round_binary64 x \<le> round_binary64 y"
proof (cases "x = 0")
  case True
  show ?thesis
  proof (cases "y = 0")
    case True with \<open>x = 0\<close> show ?thesis by simp
  next
    case False
    with assms True have "0 < y" by simp
    from round_binary64_in_binade [OF this] have "0 \<le> round_binary64 y"
      by (meson order_trans powr_ge_zero)
    with True show ?thesis by (simp add: round_binary64_def)
  qed
next
  case False
  with assms have x: "0 < x" and y: "0 < y" by simp_all
  have e: "\<lfloor>log 2 x\<rfloor> \<le> \<lfloor>log 2 y\<rfloor>" using x assms(2) by (simp add: floor_mono)
  show ?thesis
  proof (cases "\<lfloor>log 2 x\<rfloor> = \<lfloor>log 2 y\<rfloor>")
    case True
    let ?u = "2 powr (of_int \<lfloor>log 2 y\<rfloor> - 52) :: real"
    have "x / ?u \<le> y / ?u" using assms(2) by (simp add: divide_right_mono)
    then have "round_even (x / ?u) \<le> round_even (y / ?u)" by (rule round_even_mono)
    then have "?u * of_int (round_even (x / ?u)) \<le> ?u * of_int (round_even (y / ?u))"
      by (simp add: mult_left_mono)
    then show ?thesis using x y True by (simp add: round_binary64_pos)
  next
    case False
    with e have "\<lfloor>log 2 x\<rfloor> + 1 \<le> \<lfloor>log 2 y\<rfloor>" by simp
    then have "real_of_int (\<lfloor>log 2 x\<rfloor> + 1) \<le> real_of_int \<lfloor>log 2 y\<rfloor>"
      by (simp only: of_int_le_iff)
    then have "(2::real) powr (of_int \<lfloor>log 2 x\<rfloor> + 1) \<le> 2 powr of_int \<lfloor>log 2 y\<rfloor>"
      by (intro powr_mono) simp_all
    with round_binary64_in_binade [OF x] round_binary64_in_binade [OF y]
    show ?thesis by linarith
  qed
qed

lemma round_binary64_nonneg: "0 \<le> x \<Longrightarrow> 0 \<le> round_binary64 x"
  using round_binary64_mono [of 0 x] by (simp add: round_binary64_def)

lemma round_even_rat:
  assumes "0 < b"
  shows "round_even (real_of_int a / real_of_int b) =
           (if 2 * (a mod b) < b then a div b
            else if b < 2 * (a mod b) then a div b + 1
            else if even (a div b) then a div b else a div b + 1)"
proof -
  have f: "\<lfloor>real_of_int a / real_of_int b\<rfloor> = a div b" by (rule floor_divide_of_int_eq)
  have "real_of_int a = real_of_int (a div b) * real_of_int b + real_of_int (a mod b)"
    by (metis div_mult_mod_eq of_int_add of_int_mult)
  then have r: "real_of_int a / real_of_int b - real_of_int (a div b)
                 = real_of_int (a mod b) / real_of_int b"
    using assms by (simp add: field_simps)
  have lt: "(real_of_int (a mod b) / real_of_int b < 1 / 2) = (2 * (a mod b) < b)"
    using assms by (simp add: field_simps) (metis of_int_less_iff of_int_mult of_int_numeral mult.commute)
  have gt: "(1 / 2 < real_of_int (a mod b) / real_of_int b) = (b < 2 * (a mod b))"
    using assms by (simp add: field_simps) (metis of_int_less_iff of_int_mult of_int_numeral mult.commute)
  show ?thesis
    unfolding round_even_def Let_def f r lt gt by simp
qed

lemma round_binary64_scale:
  assumes "0 < x"
  shows "round_binary64 (x * 2 powr of_int k) = round_binary64 x * 2 powr of_int k"
proof -
  have p: "0 < x * 2 powr of_int k" using assms by simp
  have "log 2 (x * 2 powr of_int k) = log 2 x + of_int k"
    using assms by (simp add: log_mult)
  then have e: "\<lfloor>log 2 (x * 2 powr of_int k)\<rfloor> = \<lfloor>log 2 x\<rfloor> + k" by simp
  have "real_of_int (\<lfloor>log 2 x\<rfloor> + k) - 52 = (real_of_int \<lfloor>log 2 x\<rfloor> - 52) + real_of_int k"
    by simp
  then have u: "(2::real) powr (of_int (\<lfloor>log 2 x\<rfloor> + k) - 52)
                  = 2 powr (of_int \<lfloor>log 2 x\<rfloor> - 52) * 2 powr of_int k"
    by (simp only: powr_add)
  show ?thesis
    unfolding round_binary64_pos [OF p] round_binary64_pos [OF assms] e u
    by simp
qed

lemma round_binary64_1: "round_binary64 1 = 1"
proof -
  have "round_binary64 1 = 2 powr (of_int 0 - 52) * of_int (round_even (1 / 2 powr (of_int 0 - 52)))"
    by (rule round_binary64_at) simp_all
  also have "1 / 2 powr (of_int 0 - 52) = real_of_int (2 ^ 52)" by (simp add: powr_minus_divide)
  also have "round_even (real_of_int (2 ^ 52)) = 2 ^ 52" by (rule round_even_of_int)
  finally show ?thesis by (simp add: powr_minus_divide)
qed

lemma round_binary64_pow2: "round_binary64 (2 powr of_int k) = 2 powr of_int k"
  using round_binary64_scale [of 1 k] by (simp add: round_binary64_1)

lemma next_after_7_4: "round_binary64 (7 / 4 + 1 / 2 ^ 52) = 7 / 4 + 1 / 2 ^ 52"
proof -
  have "round_binary64 (7 / 4 + 1 / 2 ^ 52) =
          2 powr (of_int 0 - 52)
            * of_int (round_even ((7 / 4 + 1 / 2 ^ 52) / 2 powr (of_int 0 - 52)))"
    by (rule round_binary64_at) simp_all
  also have "(7 / 4 + 1 / 2 ^ 52) / 2 powr (of_int 0 - 52) = real_of_int 7881299347898369"
    by (simp add: powr_minus_divide)
  also have "round_even (real_of_int 7881299347898369) = 7881299347898369"
    by (rule round_even_of_int)
  finally show ?thesis by (simp add: powr_minus_divide)
qed

lemma quotient_at_7_4:
  "round_binary64 (64 / (7 / 4)) = 2 powr (- 47) * 5146971002709138"
proof -
  have "round_binary64 (64 / (7 / 4)) =
          2 powr (of_int 5 - 52) * of_int (round_even (64 / (7 / 4) / 2 powr (of_int 5 - 52)))"
    by (rule round_binary64_at) simp_all
  also have "64 / (7 / 4) / 2 powr (of_int 5 - 52)
               = real_of_int 36028797018963968 / real_of_int 7"
    by (simp add: powr_minus_divide)
  also have "round_even (real_of_int 36028797018963968 / real_of_int 7) = 5146971002709138"
    by (subst round_even_rat) simp_all
  finally show ?thesis by simp
qed

lemma quotient_at_next:
  "round_binary64 (64 / (7 / 4 + 1 / 2 ^ 52)) = 2 powr (- 47) * 5146971002709138"
proof -
  have "round_binary64 (64 / (7 / 4 + 1 / 2 ^ 52)) =
          2 powr (of_int 5 - 52)
            * of_int (round_even (64 / (7 / 4 + 1 / 2 ^ 52) / 2 powr (of_int 5 - 52)))"
    by (rule round_binary64_at) simp_all
  also have "64 / (7 / 4 + 1 / 2 ^ 52) / 2 powr (of_int 5 - 52)
               = real_of_int 40564819207303340847894502572032 / real_of_int 7881299347898369"
    by (simp add: powr_minus_divide)
  also have "round_even (real_of_int 40564819207303340847894502572032
                           / real_of_int 7881299347898369) = 5146971002709138"
    by (subst round_even_rat) simp_all
  finally show ?thesis by simp
qed

lemma binary64_consts:
  "round_binary64 8 = 8" "round_binary64 64 = 64" "round_binary64 512 = 512"
  "round_binary64 1048576 = 1048576" "round_binary64 (1 / 2048) = 1 / 2048"
  using round_binary64_pow2 [of 3] round_binary64_pow2 [of 6] round_binary64_pow2 [of 9]
    round_binary64_pow2 [of 20] round_binary64_pow2 [of "- 11"]
  by (simp_all add: powr_minus_divide)

lemma round_binary64_7_4: "round_binary64 (7 / 4) = 7 / 4"
proof -
  have "round_binary64 (7 / 4) =
          2 powr (of_int 0 - 52) * of_int (round_even (7 / 4 / 2 powr (of_int 0 - 52)))"
    by (rule round_binary64_at) simp_all
  also have "7 / 4 / 2 powr (of_int 0 - 52) = real_of_int 7881299347898368"
    by (simp add: powr_minus_divide)
  also have "round_even (real_of_int 7881299347898368) = 7881299347898368"
    by (rule round_even_of_int)
  finally show ?thesis by (simp add: powr_minus_divide)
qed

lemma bandwidth_quotient:
  assumes "0 < t"
  shows "round_binary64 (1 / 2048 / t) = round_binary64 (64 / t) * 2 powr (- 17)"
proof -
  have "1 / 2048 / t = 64 / t * 2 powr of_int (- 17)" by (simp add: powr_minus_divide)
  moreover have "0 < 64 / t" using assms by simp
  ultimately show ?thesis using round_binary64_scale [of "64 / t" "- 17"] by simp
qed

text \<open>
  The elapsed times 1.75 and \<open>1.75 + 2 ^ -52\<close> are consecutive binary64 numbers. For 64
  messages of 8 bytes the two quotients round to the same number, so the rate and the
  bandwidth computed from the longer time equal those computed from the shorter one.
\<close>

theorem rounding_collision:
  "round_binary64 (7 / 4) = 7 / 4
   \<and> round_binary64 (7 / 4 + 1 / 2 ^ 52) = 7 / 4 + 1 / 2 ^ 52
   \<and> (7 / 4 :: real) < 7 / 4 + 1 / 2 ^ 52
   \<and> thread_rate binary64_arith
        \<lparr>num_threads = 1, num_messages = 64, message_size = 8\<rparr> (7 / 4 + 1 / 2 ^ 52)
      = thread_rate binary64_arith
          \<lparr>num_threads = 1, num_messages = 64, message_size = 8\<rparr> (7 / 4)
   \<and> thread_bandwidth binary64_arith
        \<lparr>num_threads = 1, num_messages = 64, message_size = 8\<rparr> (7 / 4 + 1 / 2 ^ 52)
      = thread_bandwidth binary64_arith
          \<lparr>num_threads = 1, num_messages = 64, message_size = 8\<rparr> (7 / 4)"
proof -
  have q: "round_binary64 (64 / (7 / 4 + 1 / 2 ^ 52)) = round_binary64 (64 / (7 / 4))"
    by (simp only: quotient_at_next quotient_at_7_4)
  have r: "thread_rate binary64_arith
        \<lparr>num_threads = 1, num_messages = 64, message_size = 8\<rparr> (7 / 4 + 1 / 2 ^ 52)
      = thread_rate binary64_arith
          \<lparr>num_threads = 1, num_messages = 64, message_size = 8\<rparr> (7 / 4)"
    unfolding thread_rate_def binary64_arith_def
    by (simp only: arith.simps bench_globals.simps of_int_numeral binary64_consts q)
  have b1: "round_binary64 (1 / 2048 / (7 / 4 + 1 / 2 ^ 52))
              = round_binary64 (64 / (7 / 4 + 1 / 2 ^ 52)) * 2 powr (- 17)"
    by (rule bandwidth_quotient) simp
  have b2: "round_binary64 (1 / 2048 / (7 / 4)) = round_binary64 (64 / (7 / 4)) * 2 powr (- 17)"
    by (rule bandwidth_quotient) simp
  have "round_binary64 (1 / 2048 / (7 / 4 + 1 / 2 ^ 52)) = round_binary64 (1 / 2048 / (7 / 4))"
    by (simp only: b1 b2 q)
  then have b: "thread_bandwidth binary64_arith
        \<lparr>num_threads = 1, num_messages = 64, message_size = 8\<rparr> (7 / 4 + 1 / 2 ^ 52)
      = thread_bandwidth binary64_arith
          \<lparr>num_threads = 1, num_messages = 64, message_size = 8\<rparr> (7 / 4)"
    unfolding thread_bandwidth_def binary64_arith_def
    by (simp only: arith.simps bench_globals.simps of_int_numeral binary64_consts
          mult_numeral_left_semiring_numeral numeral_times_numeral num.simps
          semiring_norm divide_numeral_1 ) (simp add: binary64_consts)
  from r b next_after_7_4 round_binary64_7_4 show ?thesis by simp
qed

text \<open>
  Claim C8, amended. For a positive message size and a positive message count, and elapsed
  times \<open>0 < t1 < t2\<close>: in exact arithmetic the rate and the bandwidth computed from \<open>t2\<close>
  are strictly smaller than those computed from \<open>t1\<close>; in binary64 arithmetic (rounding to
  nearest, no bound on the exponent) they are smaller or equal.
\<close>

theorem rates_decrease:
  assumes "0 < message_size g" "0 < num_messages g" "0 < t1" "t1 < t2"
  shows "thread_rate real_arith g t2 < thread_rate real_arith g t1
       \<and> thread_bandwidth real_arith g t2 < thread_bandwidth real_arith g t1
       \<and> thread_rate binary64_arith g t2 \<le> thread_rate binary64_arith g t1
       \<and> thread_bandwidth binary64_arith g t2 \<le> thread_bandwidth binary64_arith g t1"
proof -
  have t2: "0 < t2" using assms by simp
  have inv: "c / t2 \<le> c / t1" "0 \<le> c / t2" if "0 \<le> c" for c :: real
    using that assms(3,4) t2 by (simp_all add: frac_le)
  have a: "thread_rate real_arith g t2 < thread_rate real_arith g t1"
    using assms t2 by (simp add: thread_rate_def real_arith_def frac_less2)
  have b: "thread_bandwidth real_arith g t2 < thread_bandwidth real_arith g t1"
    using assms t2 by (simp add: thread_bandwidth_def real_arith_def frac_less2)
  let ?n = "round_binary64 (real_of_int (num_messages g))"
  let ?d = "round_binary64 (real_of_int 1000000)"
  have n0: "0 \<le> ?n" using assms(2) by (simp add: round_binary64_nonneg)
  have d0: "0 \<le> ?d" by (simp add: round_binary64_nonneg)
  have "round_binary64 (?n / t2) \<le> round_binary64 (?n / t1)"
    using inv [OF n0] by (simp add: round_binary64_mono)
  moreover have "0 \<le> round_binary64 (?n / t2)"
    using inv [OF n0] by (simp add: round_binary64_nonneg)
  ultimately have "round_binary64 (?n / t2) / ?d \<le> round_binary64 (?n / t1) / ?d"
    "0 \<le> round_binary64 (?n / t2) / ?d"
    using d0 by (simp_all add: divide_right_mono)
  then have c: "thread_rate binary64_arith g t2 \<le> thread_rate binary64_arith g t1"
    by (simp add: thread_rate_def binary64_arith_def round_binary64_mono)
  let ?m = "round_binary64 (real_of_int (message_size g))"
  let ?p = "round_binary64 (?m * ?n)"
  let ?k = "round_binary64 (real_of_int (1024 * 1024))"
  let ?a = "round_binary64 (?p / ?k)"
  have m0: "0 \<le> ?m" using assms(1) by (simp add: round_binary64_nonneg)
  have p0: "0 \<le> ?p" using m0 n0 by (simp add: round_binary64_nonneg)
  have k0: "0 \<le> ?k" by (simp add: round_binary64_nonneg)
  have a0: "0 \<le> ?a" using p0 k0 by (simp add: round_binary64_nonneg)
  have "round_binary64 (?a / t2) \<le> round_binary64 (?a / t1)"
    using inv [OF a0] by (simp add: round_binary64_mono)
  then have d: "thread_bandwidth binary64_arith g t2 \<le> thread_bandwidth binary64_arith g t1"
    by (simp add: thread_bandwidth_def binary64_arith_def)
  from a b c d show ?thesis by blast
qed

theorem rates_decrease_witness:
  "thread_rate real_arith \<lparr>num_threads = 1, num_messages = 64, message_size = 8\<rparr> 2
     < thread_rate real_arith \<lparr>num_threads = 1, num_messages = 64, message_size = 8\<rparr> 1
   \<and> thread_bandwidth binary64_arith \<lparr>num_threads = 1, num_messages = 64, message_size = 8\<rparr> 2
     \<le> thread_bandwidth binary64_arith \<lparr>num_threads = 1, num_messages = 64, message_size = 8\<rparr> 1"
  using rates_decrease [of "\<lparr>num_threads = 1, num_messages = 64, message_size = 8\<rparr>" 1 2]
  by simp

section \<open>The order of the phases\<close>

lemma upto_from_0: "0 < nt \<Longrightarrow> [0 .. nt - 1] = 0 # [1 .. nt - 1]"
  by (simp add: upto_rec1)

lemma contig_buffer_size_messages:
  "contig_buffer_size \<lparr>num_threads = nt, num_messages = a, message_size = ms\<rparr>
     = contig_buffer_size \<lparr>num_threads = nt, num_messages = b, message_size = ms\<rparr>"
  by (simp add: contig_buffer_size_def)

text \<open>
  On the sender the measured loop is followed at once by the end of the epoch: the second
  barrier comes after the window is freed, and a third one follows the report. On the
  target \<^verbatim>\<open>MPI_Win_free\<close> is called between the first and the second barrier, and the
  buffer is freed after the third.
\<close>

theorem sender_phase_counterexample:
  "map_option (\<lambda>(tr, ret). run_phases tr)
     (run_bench real_arith example_env 0
        \<lparr>num_threads = 1, num_messages = 640000, message_size = 8\<rparr>) =
   Some [Idle, WindowReady, EpochOpen, Warmup, Barrier 1, Measuring, EpochClosed,
         WindowFreed, Barrier 2, Reported, Barrier 3]
   \<and> [Idle, WindowReady, EpochOpen, Warmup, Barrier 1, Measuring, EpochClosed,
       WindowFreed, Barrier 2, Reported, Barrier 3] \<noteq> spec_sender_phases
   \<and> map_option (\<lambda>(tr, ret). master_order tr)
       (run_bench real_arith example_env 1
          \<lparr>num_threads = 1, num_messages = 640000, message_size = 8\<rparr>) =
     Some [Calloc 1 8, Posix_memalign 8, MPI_Win_create 8, MPI_Barrier, Omp_barrier,
           MPI_Win_free, Omp_barrier, MPI_Barrier, MPI_Barrier, Free_contig_buf]"
  by (simp add: run_bench_def normalize_messages_def normalize_count_def c_div_def c_quot_def
      c_mul_def is_c_int_def INT_MIN_def INT_MAX_def WINDOW_SIZE_def thread_body_def
      thread_prologue_def target_disp_of_def win_posts_of_def accuracy_warning_def
      body_of_locals_def run_phases_def master_order_def spec_sender_phases_def
      contig_buffer_size_def to_size_t_def eval_nat_numeral)

text \<open>
  Claim C5, amended. For positive parameters with
  \<open>(num_threads - 1) * message_size \<le> INT_MAX\<close> (the displacement of every thread fits an
  \<^verbatim>\<open>int\<close>), the run is defined and the master thread of the sender passes through Idle,
  WindowReady, EpochOpen, Warmup, Barrier 1, Measuring, EpochClosed, WindowFreed,
  Barrier 2, Reported, Barrier 3. The target passes through Idle, WindowReady, Barrier 1,
  WindowFreed, Barrier 2, Barrier 3: it calls \<^verbatim>\<open>MPI_Win_free\<close> between the first and the
  second barrier and frees the buffer of the window only after the second and the third,
  the second being one the sender reaches after its measured loop, the end of its epoch
  and its own \<^verbatim>\<open>MPI_Win_free\<close>.
\<close>

theorem phase_order:
  assumes "0 < nt" "0 < nm" "nm \<le> INT_MAX" "0 < ms" "(nt - 1) * ms \<le> INT_MAX"
  shows "map_option (\<lambda>(tr, ret). run_phases tr)
           (run_bench A e rank \<lparr>num_threads = nt, num_messages = nm, message_size = ms\<rparr>) =
         Some (if rank mod 2 = 0
               then [Idle, WindowReady, EpochOpen, Warmup, Barrier 1, Measuring, EpochClosed,
                     WindowFreed, Barrier 2, Reported, Barrier 3]
               else [Idle, WindowReady, Barrier 1, WindowFreed, Barrier 2, Barrier 3])
       \<and> (rank mod 2 \<noteq> 0 \<longrightarrow>
            map_option (\<lambda>(tr, ret). master_order tr)
              (run_bench A e rank \<lparr>num_threads = nt, num_messages = nm, message_size = ms\<rparr>) =
            Some [Calloc nt 8,
                  Posix_memalign (contig_buffer_size
                     \<lparr>num_threads = nt, num_messages = nm, message_size = ms\<rparr>),
                  MPI_Win_create (contig_buffer_size
                     \<lparr>num_threads = nt, num_messages = nm, message_size = ms\<rparr>),
                  MPI_Barrier, Omp_barrier, MPI_Win_free, Omp_barrier,
                  MPI_Barrier, MPI_Barrier, Free_contig_buf])"
  unfolding run_bench_normal [OF assms]
  using assms(1)
    contig_buffer_size_messages [of nt "WINDOW_SIZE * (nm div nt div WINDOW_SIZE)" ms nm]
  by (simp add: run_phases_def master_order_def body_of_locals_def upto_from_0 eval_nat_numeral)

theorem phase_order_witness:
  "map_option (\<lambda>(tr, ret). run_phases tr)
     (run_bench real_arith example_env 1
        \<lparr>num_threads = 4, num_messages = 640000, message_size = 8\<rparr>) =
   Some [Idle, WindowReady, Barrier 1, WindowFreed, Barrier 2, Barrier 3]
   \<and> map_option (\<lambda>(tr, ret). master_order tr)
     (run_bench real_arith example_env 1
        \<lparr>num_threads = 4, num_messages = 640000, message_size = 8\<rparr>) =
   Some [Calloc 4 8, Posix_memalign 32, MPI_Win_create 32, MPI_Barrier, Omp_barrier,
         MPI_Win_free, Omp_barrier, MPI_Barrier, MPI_Barrier, Free_contig_buf]
   \<and> map_option (\<lambda>(tr, ret). run_phases tr)
     (run_bench real_arith example_env 0
        \<lparr>num_threads = 4, num_messages = 640000, message_size = 8\<rparr>) =
   Some [Idle, WindowReady, EpochOpen, Warmup, Barrier 1, Measuring, EpochClosed,
         WindowFreed, Barrier 2, Reported, Barrier 3]"
  using phase_order [of 4 640000 8 real_arith example_env 1]
    phase_order [of 4 640000 8 real_arith example_env 0]
  by (simp add: INT_MAX_def contig_buffer_size_def to_size_t_def)

section \<open>Start-up checks\<close>

lemma parse_loop_Exit:
  "parse_loop ocs g = (Exit out r :: 'd parsed) \<Longrightarrow>
     (out = [Do Print_usage] \<and> r = - 1)
     \<or> (out = [Do (Printf (''Unrecognized argument'' @ [CHR 0x0A]))] \<and> r = EXIT_FAILURE)"
proof (induction ocs arbitrary: g)
  case Nil
  then show ?case by simp
next
  case (Cons oc ocs)
  then show ?case
    by (auto split: prod.splits if_splits option.splits)
qed

text \<open>
  Claim C6. If the MPI library does not provide \<open>MPI_THREAD_MULTIPLE\<close> or the number of
  processes is not two, then no run of \<^verbatim>\<open>main\<close> allocates a buffer, creates a window or
  prints a report; and a run that initialised MPI ends in \<^verbatim>\<open>MPI_Abort\<close>.
\<close>

theorem abort_before_window:
  assumes "provided e \<noteq> MPI_THREAD_MULTIPLE \<or> comm_size e \<noteq> 2"
  shows "(\<forall>a \<in> all_actions (fst (main A e c)). \<not> is_allocation a \<and> \<not> is_report a)
       \<and> (Do MPI_Init_thread \<in> set (fst (main A e c)) \<longrightarrow>
            snd (main A e c) = Aborted 1 \<and> last (fst (main A e c)) = Do (MPI_Abort 1))"
proof (cases "parse_loop (opts c)
                \<lparr>num_threads = DEF_NUM_THREADS, num_messages = DEF_NUM_MESSAGES,
                 message_size = DEF_MESSAGE_SIZE\<rparr> :: 'a parsed")
  case (Exit out r)
  from parse_loop_Exit [OF this] Exit show ?thesis
    by (auto simp: main_def all_actions_def)
next
  case (Parsed g0)
  with assms show ?thesis
    by (auto simp: main_def all_actions_def Let_def)
next
  case Parse_undefined
  then show ?thesis by (simp add: main_def all_actions_def)
qed

theorem abort_before_window_witness:
  "snd (main real_arith (example_env\<lparr>comm_size := 3\<rparr>) \<lparr>opts = [], operands = []\<rparr>) = Aborted 1
   \<and> last (fst (main real_arith (example_env\<lparr>comm_size := 3\<rparr>) \<lparr>opts = [], operands = []\<rparr>))
       = Do (MPI_Abort 1)"
proof -
  have h: "provided (example_env\<lparr>comm_size := 3\<rparr>) \<noteq> MPI_THREAD_MULTIPLE
           \<or> comm_size (example_env\<lparr>comm_size := 3\<rparr>) \<noteq> 2"
    by (simp add: example_env_def)
  have i: "Do MPI_Init_thread
             \<in> set (fst (main real_arith (example_env\<lparr>comm_size := 3\<rparr>)
                            \<lparr>opts = [], operands = []\<rparr>))"
    by (simp add: main_def example_env_def)
  from abort_before_window [OF h, of real_arith "\<lparr>opts = [], operands = []\<rparr>"] i
  show ?thesis by blast
qed

section \<open>The window size\<close>

lemma those_Some_mem:
  "those xs = Some ys \<Longrightarrow> y \<in> set ys \<Longrightarrow> Some y \<in> set xs"
  by (induction xs arbitrary: ys) (auto split: option.splits)

lemma body_loops:
  assumes "Rma_loop ops \<in> set (body_of_locals A e rank l)"
  shows "ops = post_loop 0 (win_posts l) rank (target_disp l) (my_message_size l)"
  using assms by (auto simp: body_of_locals_def split: if_splits)

lemma run_bench_loops:
  assumes "run_bench A e rank g = Some (tr, r)" "Rma_loop ops \<in> all_actions tr"
  shows "\<exists>wp d n. ops = post_loop 0 wp rank d n"
proof -
  from assms(1) obtain g' bodies where
    b: "those (map (thread_body A e rank g') [0 .. num_threads g' - 1]) = Some bodies"
    and tr: "Rma_loop ops \<in> all_actions tr \<longrightarrow> (\<exists>b \<in> set bodies. Rma_loop ops \<in> set b)"
    by (auto simp: run_bench_def all_actions_def split: Option.bind_splits if_splits)
  from tr assms(2) obtain b where b1: "b \<in> set bodies" "Rma_loop ops \<in> set b" by blast
  from those_Some_mem [OF b b1(1)] obtain t where "thread_body A e rank g' t = Some b"
    by auto
  then obtain l where "b = body_of_locals A e rank l" by (auto simp: thread_body_def)
  with b1(2) body_loops show ?thesis by blast
qed

lemma main_loops:
  assumes "Rma_loop ops \<in> all_actions (fst (main A e c))"
  shows "\<exists>wp d n. ops = post_loop 0 wp (comm_rank e) d n"
proof (cases "parse_loop (opts c)
                \<lparr>num_threads = DEF_NUM_THREADS, num_messages = DEF_NUM_MESSAGES,
                 message_size = DEF_MESSAGE_SIZE\<rparr> :: 'a parsed")
  case (Exit out r)
  from parse_loop_Exit [OF this] Exit assms show ?thesis
    by (auto simp: main_def all_actions_def)
next
  case (Parsed g0)
  show ?thesis
  proof (cases "run_bench A e (comm_rank e) (large_message_default g0)")
    case None
    with Parsed assms show ?thesis
      by (auto simp: main_def all_actions_def Let_def split: if_splits)
  next
    case (Some p)
    obtain tr r where p: "p = (tr, r)" by (cases p)
    from Parsed Some p assms have "Rma_loop ops \<in> all_actions tr"
      by (auto simp: main_def all_actions_def Let_def split: if_splits)
    with run_bench_loops Some p show ?thesis by blast
  qed
next
  case Parse_undefined
  with assms show ?thesis by (simp add: main_def all_actions_def)
qed

lemma parse_loop_W:
  assumes "fst (getopt_long oc) = CHR ''W''"
    and "\<forall>x \<in> set pre. fst (getopt_long x) \<in> {CHR ''T'', CHR ''M'', CHR ''S''}
                        \<and> atoi (snd (getopt_long x)) \<noteq> None"
  shows "parse_loop (pre @ oc # rest) g =
           (Exit [Do (Printf (''Unrecognized argument'' @ [CHR 0x0A]))] EXIT_FAILURE :: 'd parsed)"
  using assms(2)
proof (induction pre arbitrary: g)
  case Nil
  from assms(1) show ?case by (cases "getopt_long oc") simp
next
  case (Cons x pre)
  then show ?case by (cases "getopt_long x") auto
qed

lemma parse_loop_Parsed:
  "parse_loop ocs g = (Parsed g' :: 'd parsed) \<Longrightarrow> x \<in> set ocs \<Longrightarrow>
     fst (getopt_long x) \<in> {CHR ''T'', CHR ''M'', CHR ''S''}"
proof (induction ocs arbitrary: g)
  case Nil
  then show ?case by simp
next
  case (Cons oc ocs)
  then show ?case
    by (cases "getopt_long oc") (auto split: if_splits option.splits)
qed

lemma main_not_run_W:
  assumes "oc \<in> set (opts c)" "fst (getopt_long oc) = CHR ''W''"
  shows "Do MPI_Init_thread \<notin> set (fst (main A e c)) \<and> snd (main A e c) \<noteq> Return 0"
proof (cases "parse_loop (opts c)
                \<lparr>num_threads = DEF_NUM_THREADS, num_messages = DEF_NUM_MESSAGES,
                 message_size = DEF_MESSAGE_SIZE\<rparr> :: 'a parsed")
  case (Exit out r)
  from parse_loop_Exit [OF this] Exit show ?thesis
    by (auto simp: main_def EXIT_FAILURE_def)
next
  case (Parsed g0)
  from parse_loop_Parsed [OF this assms(1)] assms(2) show ?thesis by simp
next
  case Parse_undefined
  then show ?thesis by (simp add: main_def)
qed

text \<open>
  Claim C10. In every run each put loop is a sequence of batches of exactly 64 puts, each
  followed by one flush, whatever the command line and the environment. \<^verbatim>\<open>getopt_long\<close>
  accepts \<^verbatim>\<open>-W\<close> and \<^verbatim>\<open>--window-size\<close> with an argument and returns \<^verbatim>\<open>'W'\<close>, for which
  the \<^verbatim>\<open>switch\<close> has no case: after options \<^verbatim>\<open>T\<close>, \<^verbatim>\<open>M\<close>, \<^verbatim>\<open>S\<close> with valid
  arguments the program prints \<^verbatim>\<open>Unrecognized argument\<close> and returns \<^verbatim>\<open>EXIT_FAILURE\<close>, and
  with the option anywhere on the command line MPI is never initialised and the program
  does not return 0.
\<close>

theorem window_size_fixed:
  "(\<forall>ops. Rma_loop ops \<in> all_actions (fst (main A e c)) \<longrightarrow>
      (\<exists>wp r d n. ops = concat (replicate (nat wp)
                           (replicate 64 (MPI_Put r d n) @ [MPI_Win_flush r]))))
   \<and> getopt_long (Short CHR ''W'' (Some a)) = (CHR ''W'', a)
   \<and> getopt_long (Long ''window-size'' (Some a)) = (CHR ''W'', a)
   \<and> (fst (getopt_long oc) = CHR ''W''
        \<and> (\<forall>x \<in> set pre. fst (getopt_long x) \<in> {CHR ''T'', CHR ''M'', CHR ''S''}
                           \<and> atoi (snd (getopt_long x)) \<noteq> None)
      \<longrightarrow> main A e \<lparr>opts = pre @ oc # rest, operands = xs\<rparr> =
            ([Do (Printf (''Unrecognized argument'' @ [CHR 0x0A]))], Return EXIT_FAILURE))
   \<and> (oc \<in> set (opts c) \<and> fst (getopt_long oc) = CHR ''W''
      \<longrightarrow> Do MPI_Init_thread \<notin> set (fst (main A e c)) \<and> snd (main A e c) \<noteq> Return 0)"
proof -
  have a: "\<forall>ops. Rma_loop ops \<in> all_actions (fst (main A e c)) \<longrightarrow>
      (\<exists>wp r d n. ops = concat (replicate (nat wp)
                           (replicate 64 (MPI_Put r d n) @ [MPI_Win_flush r])))"
  proof (intro allI impI)
    fix ops assume "Rma_loop ops \<in> all_actions (fst (main A e c))"
    from main_loops [OF this] obtain wp d n where "ops = post_loop 0 wp (comm_rank e) d n"
      by blast
    then have "ops = concat (replicate (nat wp)
                 (replicate 64 (MPI_Put (comm_rank e + 1) d n) @ [MPI_Win_flush (comm_rank e + 1)]))"
      by (simp add: post_loop_replicate WINDOW_SIZE_def)
    then show "\<exists>wp r d n. ops = concat (replicate (nat wp)
                           (replicate 64 (MPI_Put r d n) @ [MPI_Win_flush r]))"
      by blast
  qed
  have b: "getopt_long (Short CHR ''W'' (Some a)) = (CHR ''W'', a)"
    "getopt_long (Long ''window-size'' (Some a)) = (CHR ''W'', a)"
    by (simp_all add: getopt_long_def optstring_def long_match_def long_options_def)
  have c: "fst (getopt_long oc) = CHR ''W''
        \<and> (\<forall>x \<in> set pre. fst (getopt_long x) \<in> {CHR ''T'', CHR ''M'', CHR ''S''}
                           \<and> atoi (snd (getopt_long x)) \<noteq> None)
      \<longrightarrow> main A e \<lparr>opts = pre @ oc # rest, operands = xs\<rparr> =
            ([Do (Printf (''Unrecognized argument'' @ [CHR 0x0A]))], Return EXIT_FAILURE)"
    by (simp add: main_def parse_loop_W)
  have d: "oc \<in> set (opts c) \<and> fst (getopt_long oc) = CHR ''W''
      \<longrightarrow> Do MPI_Init_thread \<notin> set (fst (main A e c)) \<and> snd (main A e c) \<noteq> Return 0"
    using main_not_run_W by blast
  from a b c d show ?thesis by blast
qed

theorem window_size_fixed_witness:
  "main real_arith example_env
     \<lparr>opts = [Short CHR ''T'' (Some ''4''), Long ''window-size'' (Some ''32'')],
      operands = []\<rparr> =
   ([Do (Printf (''Unrecognized argument'' @ [CHR 0x0A]))], Return EXIT_FAILURE)"
proof -
  have h: "fst (getopt_long (Long ''window-size'' (Some ''32''))) = CHR ''W''"
    by (simp add: getopt_long_def long_match_def long_options_def)
  have p: "\<forall>x \<in> set [Short CHR ''T'' (Some ''4'')].
             fst (getopt_long x) \<in> {CHR ''T'', CHR ''M'', CHR ''S''}
             \<and> atoi (snd (getopt_long x)) \<noteq> None"
    by (simp add: getopt_long_def optstring_def atoi_def is_space_def is_digit_def
        is_c_int_def INT_MIN_def INT_MAX_def)
  note t = window_size_fixed [of real_arith example_env "\<lparr>opts = [], operands = []\<rparr>" "''32''"
      "Long ''window-size'' (Some ''32'')" "[Short CHR ''T'' (Some ''4'')]" "[]" "[]"]
  from t [THEN conjunct2, THEN conjunct2, THEN conjunct2, THEN conjunct1, THEN mp,
      OF conjI [OF h p]]
  show ?thesis by simp
qed

end
